theory Spec2Isabelle
  imports Main
begin

section \<open>Data model of the node-graph canvas\<close>

text \<open>
  The canvas engine exists twice in the sources: the browser extension's
  \<^verbatim>\<open>Canvas\<close> class (canvas.js) and the VS Code webview's \<^verbatim>\<open>Canvas\<close> class
  (the canvas webview script). Both keep a list of node objects and a list of
  connection objects. Node objects and component objects are JavaScript objects that
  several places refer to (the node list, the selected node, the dragged node, the
  catalog), and both classes assign to their fields in place. They are therefore kept in
  an explicit store, and the canvas holds references into it.

  Coordinates are JavaScript numbers; they are modelled as integers (pixel units). The
  only arithmetic the canvas performs on them is addition, subtraction, comparison and
  multiplication of a port index by a constant.
\<close>

type_synonym ref = nat
type_synonym point = "int \<times> int"

datatype error = TypeError

text \<open>
  A component object. The webview script declares \<^verbatim>\<open>inputs: string[]\<close> and
  \<^verbatim>\<open>outputs: string[]\<close>; the objects of the browser extension's catalog carry neither
  field, and the property panel tests \<^verbatim>\<open>component.inputs &&\<close> before using it. Both
  fields are therefore optional here; reading \<^verbatim>\<open>.length\<close> or \<^verbatim>\<open>.indexOf\<close> of an absent
  list is the \<^verbatim>\<open>TypeError\<close> JavaScript raises.
\<close>

record Component =
  comp_id :: string
  comp_name :: string
  comp_type :: string
  comp_category :: string
  comp_color :: string
  comp_inputs :: "string list option"
  comp_outputs :: "string list option"

record CanvasNode =
  node_id :: string
  node_component :: ref
  node_x :: int
  node_y :: int

record Connection =
  conn_id :: string
  fromNode :: string
  fromPort :: string
  toNode :: string
  toPort :: string

text \<open>
  The store: the component objects and the node objects by reference, and the next free
  reference of each kind. A new object takes the next free reference; a reference that
  was never allocated holds a placeholder that no canvas operation reads as long as the
  canvas refers to allocated objects only.
\<close>

record Store =
  comps :: "ref \<Rightarrow> Component"
  objs :: "ref \<Rightarrow> CanvasNode"
  nextComp :: ref
  nextObj :: ref

definition allocComponent :: "Component \<Rightarrow> 'a Store_scheme \<Rightarrow> ref \<times> 'a Store_scheme" where
  "allocComponent k s =
     (nextComp s, s\<lparr>comps := (comps s)(nextComp s := k), nextComp := Suc (nextComp s)\<rparr>)"

definition allocNode :: "CanvasNode \<Rightarrow> 'a Store_scheme \<Rightarrow> ref \<times> 'a Store_scheme" where
  "allocNode n s =
     (nextObj s, s\<lparr>objs := (objs s)(nextObj s := n), nextObj := Suc (nextObj s)\<rparr>)"

text \<open>The component object a node refers to.\<close>

definition componentOf :: "'a Store_scheme \<Rightarrow> ref \<Rightarrow> Component" where
  "componentOf s r = comps s (node_component (objs s r))"

record MouseEvent =
  clientX :: int
  clientY :: int

datatype event =
    NodeSelected "ref option"
  | NodeAdded ref
  | ConnectionAdded Connection
  | NodeUpdated ref

text \<open>
  The state of the browser extension's \<^verbatim>\<open>Canvas\<close>. \<^verbatim>\<open>boundingRect\<close> is the left/top
  corner \<^verbatim>\<open>getBoundingClientRect()\<close> reports for the canvas element; \<^verbatim>\<open>emitted\<close> is the
  log of the events handed to \<^verbatim>\<open>emit\<close> (the observers themselves are host code).
\<close>

record Canvas = Store +
  nodes :: "ref list"
  connections :: "Connection list"
  selectedNode :: "ref option"
  isDragging :: bool
  dragOffset :: point
  isConnecting :: bool
  connectingFrom :: "(string \<times> string) option"
  mousePos :: point
  selectedComponent :: "ref option"
  boundingRect :: point
  emitted :: "event list"

text \<open>
  The state of the webview script's \<^verbatim>\<open>Canvas\<close>. \<^verbatim>\<open>wv_posted\<close> is the log of the nodes
  sent to the extension with \<^verbatim>\<open>sendMessage({type: 'node-selected', ...})\<close>.
\<close>

record WebviewCanvas = Store +
  wv_nodes :: "ref list"
  wv_connections :: "Connection list"
  wv_selectedTool :: string
  wv_selectedNode :: "ref option"
  wv_draggedNode :: "ref option"
  wv_dragOffset :: point
  wv_isConnecting :: bool
  wv_connectingFrom :: "(string \<times> string) option"
  wv_mousePos :: point
  wv_selectedComponent :: "ref option"
  wv_boundingRect :: point
  wv_posted :: "ref list"

section \<open>Hit-testing\<close>

text \<open>
  \<^verbatim>\<open>getNodeAtPosition\<close> is the same loop in both classes: the first node of the list
  whose 100 by 50 box contains the position, or \<^verbatim>\<open>null\<close>.
\<close>

fun firstNodeAt :: "(ref \<Rightarrow> CanvasNode) \<Rightarrow> ref list \<Rightarrow> point \<Rightarrow> ref option" where
  "firstNodeAt h [] pos = None"
| "firstNodeAt h (r # rs) pos =
     (if fst pos \<ge> node_x (h r) \<and> fst pos \<le> node_x (h r) + 100 \<and>
         snd pos \<ge> node_y (h r) \<and> snd pos \<le> node_y (h r) + 50
      then Some r
      else firstNodeAt h rs pos)"

definition getNodeAtPosition :: "Canvas \<Rightarrow> point \<Rightarrow> ref option" where
  "getNodeAtPosition c pos = firstNodeAt (objs c) (nodes c) pos"

definition getNodeAtPosition_wv :: "WebviewCanvas \<Rightarrow> point \<Rightarrow> ref option" where
  "getNodeAtPosition_wv c pos = firstNodeAt (objs c) (wv_nodes c) pos"

definition getMousePos :: "Canvas \<Rightarrow> MouseEvent \<Rightarrow> point" where
  "getMousePos c e = (clientX e - fst (boundingRect c), clientY e - snd (boundingRect c))"

section \<open>Rendering\<close>

text \<open>
  Drawing calls on the 2D context are collected as a list of instructions. A draw routine
  that raises returns the error instead (the strokes already made are not kept: no
  operation of the canvas reads them back).
\<close>

datatype instr =
    ClearRect
  | FillRect string int int
  | StrokeRect int int
  | FillText string int int
  | FillArc string int int
  | StrokeLine int int int int
  | DashedLine int int int int

text \<open>A loop whose body draws, stopped by the first raise.\<close>

fun drawEach :: "('a \<Rightarrow> error + instr list) \<Rightarrow> 'a list \<Rightarrow> error + instr list" where
  "drawEach f [] = Inr []"
| "drawEach f (x # xs) =
     (case f x of
        Inl e \<Rightarrow> Inl e
      | Inr a \<Rightarrow> (case drawEach f xs of Inl e \<Rightarrow> Inl e | Inr b \<Rightarrow> Inr (a @ b)))"

text \<open>\<^verbatim>\<open>Array.prototype.indexOf\<close>: the first index of the value, or -1.\<close>

fun indexOf :: "string list \<Rightarrow> string \<Rightarrow> int" where
  "indexOf [] v = -1"
| "indexOf (p # ps) v =
     (if p = v then 0 else (let i = indexOf ps v in if i = -1 then -1 else i + 1))"

text \<open>\<^verbatim>\<open>this.nodes.find(n => n.id === id)\<close>.\<close>

definition findNodeById :: "(ref \<Rightarrow> CanvasNode) \<Rightarrow> ref list \<Rightarrow> string \<Rightarrow> ref option" where
  "findNodeById h rs i = find (\<lambda>r. node_id (h r) = i) rs"

subsection \<open>Browser extension (canvas.js)\<close>

definition drawNode :: "Component \<Rightarrow> CanvasNode \<Rightarrow> bool \<Rightarrow> error + instr list" where
  "drawNode k n isSelected =
     (let body =
        [FillRect (if isSelected then ''#ffeb3b'' else comp_color k) (node_x n) (node_y n),
         StrokeRect (node_x n) (node_y n),
         FillText (comp_name k) (node_x n + 50) (node_y n + 20),
         FillText (comp_type k) (node_x n + 50) (node_y n + 35)]
      in case comp_inputs k of
           None \<Rightarrow> Inl TypeError
         | Some ins \<Rightarrow>
             (case comp_outputs k of
                None \<Rightarrow> Inl TypeError
              | Some outs \<Rightarrow>
                  Inr (body
                    @ map (\<lambda>i. FillArc ''#2ecc71'' (node_x n) (node_y n + 10 + int i * 15))
                        [0..<length ins]
                    @ map (\<lambda>i. FillArc ''#e74c3c'' (node_x n + 100) (node_y n + 10 + int i * 15))
                        [0..<length outs])))"

definition drawNodes :: "Canvas \<Rightarrow> error + instr list" where
  "drawNodes c =
     drawEach
       (\<lambda>r. drawNode (componentOf c r) (objs c r)
              (case selectedNode c of
                 None \<Rightarrow> False
               | Some s \<Rightarrow> node_id (objs c s) = node_id (objs c r)))
       (nodes c)"

definition drawConnection :: "Canvas \<Rightarrow> Connection \<Rightarrow> error + instr list" where
  "drawConnection c conn =
     (case findNodeById (objs c) (nodes c) (fromNode conn) of
        None \<Rightarrow> Inr []
      | Some f \<Rightarrow>
          (case findNodeById (objs c) (nodes c) (toNode conn) of
             None \<Rightarrow> Inr []
           | Some t \<Rightarrow>
               (case comp_outputs (componentOf c f) of
                  None \<Rightarrow> Inl TypeError
                | Some outs \<Rightarrow>
                    (case comp_inputs (componentOf c t) of
                       None \<Rightarrow> Inl TypeError
                     | Some ins \<Rightarrow>
                         (let fromPortIndex = indexOf outs (fromPort conn);
                              toPortIndex = indexOf ins (toPort conn)
                          in if fromPortIndex \<noteq> -1 \<and> toPortIndex \<noteq> -1
                             then Inr [StrokeLine
                                        (node_x (objs c f) + 100)
                                        (node_y (objs c f) + 10 + fromPortIndex * 15)
                                        (node_x (objs c t))
                                        (node_y (objs c t) + 10 + toPortIndex * 15)]
                             else Inr [])))))"

definition drawConnections :: "Canvas \<Rightarrow> error + instr list" where
  "drawConnections c = drawEach (drawConnection c) (connections c)"

definition drawConnectingLine :: "Canvas \<Rightarrow> error + instr list" where
  "drawConnectingLine c =
     (case connectingFrom c of
        None \<Rightarrow> Inr []
      | Some (nodeId, port) \<Rightarrow>
          (case findNodeById (objs c) (nodes c) nodeId of
             None \<Rightarrow> Inr []
           | Some f \<Rightarrow>
               (case comp_outputs (componentOf c f) of
                  None \<Rightarrow> Inl TypeError
                | Some outs \<Rightarrow>
                    (let fromPortIndex = indexOf outs port
                     in if fromPortIndex = -1 then Inr []
                        else Inr [DashedLine
                                   (node_x (objs c f) + 100)
                                   (node_y (objs c f) + 10 + fromPortIndex * 15)
                                   (fst (mousePos c)) (snd (mousePos c))]))))"

definition draw :: "Canvas \<Rightarrow> error + instr list" where
  "draw c =
     (case drawConnections c of
        Inl e \<Rightarrow> Inl e
      | Inr ls \<Rightarrow>
          (case drawNodes c of
             Inl e \<Rightarrow> Inl e
           | Inr ns \<Rightarrow>
               (if isConnecting c \<and> connectingFrom c \<noteq> None
                then (case drawConnectingLine c of
                        Inl e \<Rightarrow> Inl e
                      | Inr d \<Rightarrow> Inr (ClearRect # ls @ ns @ d))
                else Inr (ClearRect # ls @ ns))))"

subsection \<open>Webview script\<close>

definition drawNode_wv :: "Component \<Rightarrow> CanvasNode \<Rightarrow> bool \<Rightarrow> error + instr list" where
  "drawNode_wv k n isSelected =
     (let body =
        [FillRect (if isSelected then ''#ffeb3b'' else comp_color k) (node_x n) (node_y n),
         StrokeRect (node_x n) (node_y n),
         FillText (comp_name k) (node_x n + 50) (node_y n + 25)]
      in case comp_inputs k of
           None \<Rightarrow> Inl TypeError
         | Some ins \<Rightarrow>
             (case comp_outputs k of
                None \<Rightarrow> Inl TypeError
              | Some outs \<Rightarrow>
                  Inr (body
                    @ map (\<lambda>i. FillArc ''#ff0000'' (node_x n - 10) (node_y n + 15 + int i * 20))
                        [0..<length ins]
                    @ map (\<lambda>i. FillArc ''#00ff00'' (node_x n + 110) (node_y n + 15 + int i * 20))
                        [0..<length outs])))"

definition drawNodes_wv :: "WebviewCanvas \<Rightarrow> error + instr list" where
  "drawNodes_wv c =
     drawEach
       (\<lambda>r. drawNode_wv (componentOf c r) (objs c r)
              (case wv_selectedNode c of
                 None \<Rightarrow> False
               | Some s \<Rightarrow> node_id (objs c s) = node_id (objs c r)))
       (wv_nodes c)"

definition drawConnection_wv :: "WebviewCanvas \<Rightarrow> Connection \<Rightarrow> error + instr list" where
  "drawConnection_wv c conn =
     (case findNodeById (objs c) (wv_nodes c) (fromNode conn) of
        None \<Rightarrow> Inr []
      | Some f \<Rightarrow>
          (case findNodeById (objs c) (wv_nodes c) (toNode conn) of
             None \<Rightarrow> Inr []
           | Some t \<Rightarrow>
               (case comp_outputs (componentOf c f) of
                  None \<Rightarrow> Inl TypeError
                | Some outs \<Rightarrow>
                    (case comp_inputs (componentOf c t) of
                       None \<Rightarrow> Inl TypeError
                     | Some ins \<Rightarrow>
                         (let fromPortIndex = indexOf outs (fromPort conn);
                              toPortIndex = indexOf ins (toPort conn)
                          in if fromPortIndex \<noteq> -1 \<and> toPortIndex \<noteq> -1
                             then Inr [StrokeLine
                                        (node_x (objs c f) + 110)
                                        (node_y (objs c f) + 15 + fromPortIndex * 20)
                                        (node_x (objs c t) - 10)
                                        (node_y (objs c t) + 15 + toPortIndex * 20)]
                             else Inr [])))))"

definition drawConnections_wv :: "WebviewCanvas \<Rightarrow> error + instr list" where
  "drawConnections_wv c = drawEach (drawConnection_wv c) (wv_connections c)"

definition drawConnectingLine_wv :: "WebviewCanvas \<Rightarrow> error + instr list" where
  "drawConnectingLine_wv c =
     (case wv_connectingFrom c of
        None \<Rightarrow> Inr []
      | Some (nodeId, portId) \<Rightarrow>
          (case findNodeById (objs c) (wv_nodes c) nodeId of
             None \<Rightarrow> Inr []
           | Some f \<Rightarrow>
               (case comp_outputs (componentOf c f) of
                  None \<Rightarrow> Inl TypeError
                | Some outs \<Rightarrow>
                    (let portIndex = indexOf outs portId
                     in if portIndex \<noteq> -1
                        then Inr [DashedLine
                                   (node_x (objs c f) + 110)
                                   (node_y (objs c f) + 15 + portIndex * 20)
                                   (fst (wv_mousePos c)) (snd (wv_mousePos c))]
                        else Inr []))))"

definition draw_wv :: "WebviewCanvas \<Rightarrow> error + instr list" where
  "draw_wv c =
     (case drawConnections_wv c of
        Inl e \<Rightarrow> Inl e
      | Inr ls \<Rightarrow>
          (case drawNodes_wv c of
             Inl e \<Rightarrow> Inl e
           | Inr ns \<Rightarrow>
               (if wv_isConnecting c \<and> wv_connectingFrom c \<noteq> None
                then (case drawConnectingLine_wv c of
                        Inl e \<Rightarrow> Inl e
                      | Inr d \<Rightarrow> Inr (ClearRect # ls @ ns @ d))
                else Inr (ClearRect # ls @ ns))))"

section \<open>Identifiers\<close>

text \<open>
  New ids are template strings over \<^verbatim>\<open>Date.now()\<close> and
  \<^verbatim>\<open>Math.random().toString(36).substr(2, 9)\<close>. The clock reading \<open>now\<close> and the
  random suffix \<open>rnd\<close> are inputs of every operation that creates an id; \<open>dec\<close> is the
  decimal rendering of the clock reading inside the template string.
\<close>

definition digit :: "nat \<Rightarrow> char" where
  "digit d = ''0123456789'' ! d"

function dec :: "nat \<Rightarrow> string" where
  "dec n = (if n < 10 then [digit n] else dec (n div 10) @ [digit (n mod 10)])"
  by pat_completeness auto
termination
  by (relation "measure id") auto

declare dec.simps [simp del]

definition nodeIdOf :: "nat \<Rightarrow> string \<Rightarrow> string" where
  "nodeIdOf now rnd = ''node-'' @ dec now @ ''-'' @ rnd"

definition connIdOf :: "nat \<Rightarrow> string \<Rightarrow> string" where
  "connIdOf now rnd = ''conn-'' @ dec now @ ''-'' @ rnd"

section \<open>The browser extension's Canvas (canvas.js)\<close>

definition emptyComponent :: Component where
  "emptyComponent =
     \<lparr>comp_id = [], comp_name = [], comp_type = [], comp_category = [], comp_color = [],
      comp_inputs = None, comp_outputs = None\<rparr>"

definition emptyNode :: CanvasNode where
  "emptyNode = \<lparr>node_id = [], node_component = 0, node_x = 0, node_y = 0\<rparr>"

text \<open>The constructor's state, over an empty store.\<close>

definition newCanvas :: Canvas where
  "newCanvas =
     \<lparr>comps = (\<lambda>_. emptyComponent), objs = (\<lambda>_. emptyNode), nextComp = 0, nextObj = 0,
      nodes = [], connections = [], selectedNode = None, isDragging = False,
      dragOffset = (0, 0), isConnecting = False, connectingFrom = None, mousePos = (0, 0),
      selectedComponent = None, boundingRect = (0, 0), emitted = []\<rparr>"

definition handleMouseDown :: "MouseEvent \<Rightarrow> Canvas \<Rightarrow> Canvas" where
  "handleMouseDown e c =
     (let c1 = c\<lparr>mousePos := getMousePos c e\<rparr>
      in case getNodeAtPosition c1 (mousePos c1) of
           None \<Rightarrow> c1
         | Some clickedNode \<Rightarrow>
             c1\<lparr>isDragging := True,
                selectedNode := Some clickedNode,
                dragOffset := (fst (mousePos c1) - node_x (objs c1 clickedNode),
                               snd (mousePos c1) - node_y (objs c1 clickedNode))\<rparr>)"

definition handleMouseMove :: "MouseEvent \<Rightarrow> Canvas \<Rightarrow> (error + unit) \<times> Canvas" where
  "handleMouseMove e c =
     (let c1 = c\<lparr>mousePos := getMousePos c e\<rparr>;
          c2 = (case selectedNode c1 of
                  Some r \<Rightarrow>
                    if isDragging c1
                    then c1\<lparr>objs := (objs c1)
                           (r := (objs c1 r)
                              \<lparr>node_x := fst (mousePos c1) - fst (dragOffset c1),
                               node_y := snd (mousePos c1) - snd (dragOffset c1)\<rparr>)\<rparr>
                    else c1
                | None \<Rightarrow> c1);
          d1 = (if isDragging c1 \<and> selectedNode c1 \<noteq> None then draw c2 else Inr []);
          d2 = (if isConnecting c1 \<and> connectingFrom c1 \<noteq> None then draw c2 else Inr [])
      in case d1 of
           Inl err \<Rightarrow> (Inl err, c2)
         | Inr _ \<Rightarrow> (case d2 of Inl err \<Rightarrow> (Inl err, c2) | Inr _ \<Rightarrow> (Inr (), c2)))"

definition handleMouseUp :: "Canvas \<Rightarrow> Canvas" where
  "handleMouseUp c = c\<lparr>isDragging := False, isConnecting := False, connectingFrom := None\<rparr>"

definition handleClick :: "MouseEvent \<Rightarrow> Canvas \<Rightarrow> (error + unit) \<times> Canvas" where
  "handleClick e c =
     (let c1 = c\<lparr>mousePos := getMousePos c e\<rparr>;
          clickedNode = getNodeAtPosition c1 (mousePos c1);
          c2 = (if \<not> isDragging c1
                then c1\<lparr>selectedNode := clickedNode,
                        emitted := emitted c1 @ [NodeSelected clickedNode]\<rparr>
                else c1)
      in case draw c2 of Inl err \<Rightarrow> (Inl err, c2) | Inr _ \<Rightarrow> (Inr (), c2))"

text \<open>
  \<^verbatim>\<open>addNode(component, x, y)\<close>: the component is passed as an object, that is, by
  reference; \<open>now\<close> and \<open>rnd\<close> are the clock reading and the random suffix of the new id.
  The node is pushed and selected before \<^verbatim>\<open>draw\<close> runs, so it stays in the list when
  \<^verbatim>\<open>draw\<close> raises; \<^verbatim>\<open>nodeAdded\<close> is emitted only after \<^verbatim>\<open>draw\<close> returned.
\<close>

definition addNode ::
  "ref \<Rightarrow> int \<Rightarrow> int \<Rightarrow> nat \<Rightarrow> string \<Rightarrow> Canvas \<Rightarrow> (error + ref) \<times> Canvas" where
  "addNode component x y now rnd c =
     (let (newNode, c1) =
            allocNode \<lparr>node_id = nodeIdOf now rnd, node_component = component,
                       node_x = x, node_y = y\<rparr> c;
          c2 = c1\<lparr>nodes := nodes c1 @ [newNode], selectedNode := Some newNode\<rparr>
      in case draw c2 of
           Inl err \<Rightarrow> (Inl err, c2)
         | Inr _ \<Rightarrow> (Inr newNode, c2\<lparr>emitted := emitted c2 @ [NodeAdded newNode]\<rparr>))"

definition removeNode :: "string \<Rightarrow> Canvas \<Rightarrow> (error + unit) \<times> Canvas" where
  "removeNode nodeId c =
     (let c1 = c\<lparr>nodes := filter (\<lambda>r. node_id (objs c r) \<noteq> nodeId) (nodes c),
                 connections :=
                   filter (\<lambda>conn. fromNode conn \<noteq> nodeId \<and> toNode conn \<noteq> nodeId)
                     (connections c)\<rparr>;
          c2 = (case selectedNode c1 of
                  Some s \<Rightarrow>
                    if node_id (objs c1 s) = nodeId
                    then c1\<lparr>selectedNode := None,
                            emitted := emitted c1 @ [NodeSelected None]\<rparr>
                    else c1
                | None \<Rightarrow> c1)
      in case draw c2 of Inl err \<Rightarrow> (Inl err, c2) | Inr _ \<Rightarrow> (Inr (), c2))"

definition addConnection ::
  "string \<Rightarrow> string \<Rightarrow> string \<Rightarrow> string \<Rightarrow> nat \<Rightarrow> string \<Rightarrow> Canvas
     \<Rightarrow> (error + Connection) \<times> Canvas" where
  "addConnection fromNodeId fromPortName toNodeId toPortName now rnd c =
     (let newConnection =
            \<lparr>conn_id = connIdOf now rnd, fromNode = fromNodeId, fromPort = fromPortName,
             toNode = toNodeId, toPort = toPortName\<rparr>;
          c1 = c\<lparr>connections := connections c @ [newConnection]\<rparr>
      in case draw c1 of
           Inl err \<Rightarrow> (Inl err, c1)
         | Inr _ \<Rightarrow>
             (Inr newConnection, c1\<lparr>emitted := emitted c1 @ [ConnectionAdded newConnection]\<rparr>))"

text \<open>
  \<^verbatim>\<open>node.component[property] = value\<close>. The record holds the fields of a component the
  canvas reads, each with its type; an assignment to another property, or of a value of
  another type than the field's, is outside this data model and leaves the record as it is.
\<close>

datatype jsvalue = Str string | Arr "string list" | Undefined

definition assignProperty :: "string \<Rightarrow> jsvalue \<Rightarrow> Component \<Rightarrow> Component" where
  "assignProperty property v k =
     (case v of
        Str s \<Rightarrow>
          if property = ''id'' then k\<lparr>comp_id := s\<rparr>
          else if property = ''name'' then k\<lparr>comp_name := s\<rparr>
          else if property = ''type'' then k\<lparr>comp_type := s\<rparr>
          else if property = ''category'' then k\<lparr>comp_category := s\<rparr>
          else if property = ''color'' then k\<lparr>comp_color := s\<rparr>
          else k
      | Arr ps \<Rightarrow>
          if property = ''inputs'' then k\<lparr>comp_inputs := Some ps\<rparr>
          else if property = ''outputs'' then k\<lparr>comp_outputs := Some ps\<rparr>
          else k
      | Undefined \<Rightarrow>
          if property = ''inputs'' then k\<lparr>comp_inputs := None\<rparr>
          else if property = ''outputs'' then k\<lparr>comp_outputs := None\<rparr>
          else k)"

definition updateNodeProperty ::
  "string \<Rightarrow> string \<Rightarrow> jsvalue \<Rightarrow> Canvas \<Rightarrow> (error + unit) \<times> Canvas" where
  "updateNodeProperty nodeId property v c =
     (case findNodeById (objs c) (nodes c) nodeId of
        None \<Rightarrow> (Inr (), c)
      | Some r \<Rightarrow>
          (let k = node_component (objs c r);
               c1 = c\<lparr>comps := (comps c)(k := assignProperty property v (comps c k))\<rparr>
           in case draw c1 of
                Inl err \<Rightarrow> (Inl err, c1)
              | Inr _ \<Rightarrow> (Inr (), c1\<lparr>emitted := emitted c1 @ [NodeUpdated r]\<rparr>)))"

subsection \<open>Project data\<close>

text \<open>
  A node as a document records it: the node's own fields and the fields of its component.
  The objects of a document that is loaded are new objects (parsed JSON or a cloned
  message), each node with a component object of its own.
\<close>

record NodeData =
  nd_id :: string
  nd_component :: Component
  nd_x :: int
  nd_y :: int

record ProjectData =
  pd_nodes :: "NodeData list option"
  pd_connections :: "Connection list option"

definition nodeData :: "'a Store_scheme \<Rightarrow> ref \<Rightarrow> NodeData" where
  "nodeData s r =
     \<lparr>nd_id = node_id (objs s r), nd_component = componentOf s r,
      nd_x = node_x (objs s r), nd_y = node_y (objs s r)\<rparr>"

definition allocNodeData :: "NodeData \<Rightarrow> 'a Store_scheme \<Rightarrow> ref \<times> 'a Store_scheme" where
  "allocNodeData d s =
     (let (k, s1) = allocComponent (nd_component d) s
      in allocNode \<lparr>node_id = nd_id d, node_component = k, node_x = nd_x d, node_y = nd_y d\<rparr> s1)"

fun allocNodes :: "NodeData list \<Rightarrow> 'a Store_scheme \<Rightarrow> ref list \<times> 'a Store_scheme" where
  "allocNodes [] s = ([], s)"
| "allocNodes (d # ds) s =
     (let (r, s1) = allocNodeData d s; (rs, s2) = allocNodes ds s1 in (r # rs, s2))"

definition getProjectData :: "Canvas \<Rightarrow> ProjectData" where
  "getProjectData c =
     \<lparr>pd_nodes = Some (map (nodeData c) (nodes c)), pd_connections = Some (connections c)\<rparr>"

definition loadProjectData :: "ProjectData \<Rightarrow> Canvas \<Rightarrow> (error + unit) \<times> Canvas" where
  "loadProjectData projectData c =
     (let c1 = (case pd_nodes projectData of
                  None \<Rightarrow> c
                | Some ds \<Rightarrow> (let (rs, s) = allocNodes ds c in s\<lparr>nodes := rs\<rparr>));
          c2 = (case pd_connections projectData of
                  None \<Rightarrow> c1
                | Some cs \<Rightarrow> c1\<lparr>connections := cs\<rparr>)
      in case draw c2 of Inl err \<Rightarrow> (Inl err, c2) | Inr _ \<Rightarrow> (Inr (), c2))"

section \<open>The webview script's Canvas\<close>

definition newWebviewCanvas :: WebviewCanvas where
  "newWebviewCanvas =
     \<lparr>comps = (\<lambda>_. emptyComponent), objs = (\<lambda>_. emptyNode), nextComp = 0, nextObj = 0,
      wv_nodes = [], wv_connections = [], wv_selectedTool = ''select'',
      wv_selectedNode = None, wv_draggedNode = None, wv_dragOffset = (0, 0),
      wv_isConnecting = False, wv_connectingFrom = None, wv_mousePos = (0, 0),
      wv_selectedComponent = None, wv_boundingRect = (0, 0), wv_posted = []\<rparr>"

text \<open>
  The \<^verbatim>\<open>'component-selected'\<close> message: the component arrives as a new object and the
  tool becomes \<^verbatim>\<open>'addComponent'\<close>.
\<close>

definition onComponentSelected :: "Component \<Rightarrow> WebviewCanvas \<Rightarrow> WebviewCanvas" where
  "onComponentSelected k c =
     (let (r, c1) = allocComponent k c
      in c1\<lparr>wv_selectedComponent := Some r, wv_selectedTool := ''addComponent''\<rparr>)"

text \<open>
  \<^verbatim>\<open>getPortAtPosition\<close>: for every node, the input ports and then the output ports, each
  tested against a 5-unit square around its position; the first match is returned as the
  pair of the node's id and the port's name.
\<close>

definition portHit :: "point \<Rightarrow> int \<Rightarrow> int \<Rightarrow> bool" where
  "portHit pos portX portY \<longleftrightarrow> \<bar>fst pos - portX\<bar> \<le> 5 \<and> \<bar>snd pos - portY\<bar> \<le> 5"

fun portAtNodes ::
  "(ref \<Rightarrow> Component) \<Rightarrow> (ref \<Rightarrow> CanvasNode) \<Rightarrow> ref list \<Rightarrow> point
     \<Rightarrow> error + (string \<times> string) option" where
  "portAtNodes k h [] pos = Inr None"
| "portAtNodes k h (r # rs) pos =
     (case comp_inputs (k (node_component (h r))) of
        None \<Rightarrow> Inl TypeError
      | Some ins \<Rightarrow>
          (case find (\<lambda>i. portHit pos (node_x (h r) - 10) (node_y (h r) + 15 + int i * 20))
                  [0..<length ins] of
             Some i \<Rightarrow> Inr (Some (node_id (h r), ins ! i))
           | None \<Rightarrow>
               (case comp_outputs (k (node_component (h r))) of
                  None \<Rightarrow> Inl TypeError
                | Some outs \<Rightarrow>
                    (case find (\<lambda>i. portHit pos (node_x (h r) + 110)
                                        (node_y (h r) + 15 + int i * 20))
                            [0..<length outs] of
                       Some i \<Rightarrow> Inr (Some (node_id (h r), outs ! i))
                     | None \<Rightarrow> portAtNodes k h rs pos))))"

definition getPortAtPosition :: "WebviewCanvas \<Rightarrow> point \<Rightarrow> error + (string \<times> string) option" where
  "getPortAtPosition c pos = portAtNodes (comps c) (objs c) (wv_nodes c) pos"

definition handleSelectTool :: "WebviewCanvas \<Rightarrow> WebviewCanvas" where
  "handleSelectTool c =
     (case getNodeAtPosition_wv c (wv_mousePos c) of
        Some clickedNode \<Rightarrow>
          c\<lparr>wv_selectedNode := Some clickedNode,
            wv_draggedNode := Some clickedNode,
            wv_dragOffset := (fst (wv_mousePos c) - node_x (objs c clickedNode),
                              snd (wv_mousePos c) - node_y (objs c clickedNode)),
            wv_posted := wv_posted c @ [clickedNode]\<rparr>
      | None \<Rightarrow> c\<lparr>wv_selectedNode := None\<rparr>)"

definition handleAddComponentTool :: "nat \<Rightarrow> string \<Rightarrow> WebviewCanvas \<Rightarrow> WebviewCanvas" where
  "handleAddComponentTool now rnd c =
     (case wv_selectedComponent c of
        None \<Rightarrow> c
      | Some k \<Rightarrow>
          (let (newNode, c1) =
                 allocNode \<lparr>node_id = nodeIdOf now rnd, node_component = k,
                            node_x = fst (wv_mousePos c) - 50,
                            node_y = snd (wv_mousePos c) - 25\<rparr> c
           in c1\<lparr>wv_nodes := wv_nodes c1 @ [newNode],
                 wv_selectedNode := Some newNode,
                 wv_posted := wv_posted c1 @ [newNode]\<rparr>))"

definition handleConnectTool :: "WebviewCanvas \<Rightarrow> (error + unit) \<times> WebviewCanvas" where
  "handleConnectTool c =
     (case getPortAtPosition c (wv_mousePos c) of
        Inl err \<Rightarrow> (Inl err, c)
      | Inr None \<Rightarrow> (Inr (), c)
      | Inr (Some port) \<Rightarrow>
          (if \<not> wv_isConnecting c
           then (Inr (), c\<lparr>wv_isConnecting := True, wv_connectingFrom := Some port\<rparr>)
           else (Inr (), c)))"

definition handleMouseDown_wv ::
  "MouseEvent \<Rightarrow> nat \<Rightarrow> string \<Rightarrow> WebviewCanvas \<Rightarrow> (error + unit) \<times> WebviewCanvas" where
  "handleMouseDown_wv e now rnd c =
     (let c1 = c\<lparr>wv_mousePos := (clientX e - fst (wv_boundingRect c),
                                  clientY e - snd (wv_boundingRect c))\<rparr>
      in if wv_selectedTool c1 = ''select'' then (Inr (), handleSelectTool c1)
         else if wv_selectedTool c1 = ''addComponent''
           then (Inr (), handleAddComponentTool now rnd c1)
         else if wv_selectedTool c1 = ''connect'' then handleConnectTool c1
         else (Inr (), c1))"

definition handleMouseMove_wv :: "MouseEvent \<Rightarrow> WebviewCanvas \<Rightarrow> (error + unit) \<times> WebviewCanvas" where
  "handleMouseMove_wv e c =
     (let c1 = c\<lparr>wv_mousePos := (clientX e - fst (wv_boundingRect c),
                                  clientY e - snd (wv_boundingRect c))\<rparr>;
          c2 = (case wv_draggedNode c1 of
                  Some r \<Rightarrow>
                    c1\<lparr>objs := (objs c1)
                        (r := (objs c1 r)
                           \<lparr>node_x := fst (wv_mousePos c1) - fst (wv_dragOffset c1),
                            node_y := snd (wv_mousePos c1) - snd (wv_dragOffset c1)\<rparr>)\<rparr>
                | None \<Rightarrow> c1)
      in case draw_wv c2 of Inl err \<Rightarrow> (Inl err, c2) | Inr _ \<Rightarrow> (Inr (), c2))"

definition completeConnection ::
  "nat \<Rightarrow> string \<Rightarrow> WebviewCanvas \<Rightarrow> (error + unit) \<times> WebviewCanvas" where
  "completeConnection now rnd c =
     (case getPortAtPosition c (wv_mousePos c) of
        Inl err \<Rightarrow> (Inl err, c)
      | Inr port \<Rightarrow>
          (let c1 = (case port of
                       None \<Rightarrow> c
                     | Some (nodeId, portId) \<Rightarrow>
                         (case wv_connectingFrom c of
                            None \<Rightarrow> c
                          | Some (fromNodeId, fromPortId) \<Rightarrow>
                              if nodeId \<noteq> fromNodeId
                              then c\<lparr>wv_connections := wv_connections c @
                                      [\<lparr>conn_id = connIdOf now rnd,
                                        fromNode = fromNodeId, fromPort = fromPortId,
                                        toNode = nodeId, toPort = portId\<rparr>]\<rparr>
                              else c))
           in (Inr (), c1\<lparr>wv_isConnecting := False, wv_connectingFrom := None\<rparr>)))"

definition handleMouseUp_wv ::
  "nat \<Rightarrow> string \<Rightarrow> WebviewCanvas \<Rightarrow> (error + unit) \<times> WebviewCanvas" where
  "handleMouseUp_wv now rnd c =
     (let c1 = (case wv_draggedNode c of Some _ \<Rightarrow> c\<lparr>wv_draggedNode := None\<rparr> | None \<Rightarrow> c)
      in if wv_isConnecting c1 then completeConnection now rnd c1 else (Inr (), c1))"

definition deleteSelectedNode :: "WebviewCanvas \<Rightarrow> WebviewCanvas" where
  "deleteSelectedNode c =
     (case wv_selectedNode c of
        None \<Rightarrow> c
      | Some s \<Rightarrow>
          c\<lparr>wv_connections :=
              filter (\<lambda>conn. fromNode conn \<noteq> node_id (objs c s) \<and> toNode conn \<noteq> node_id (objs c s))
                (wv_connections c),
            wv_nodes := filter (\<lambda>r. node_id (objs c r) \<noteq> node_id (objs c s)) (wv_nodes c),
            wv_selectedNode := None\<rparr>)"

definition handleKeyDown :: "string \<Rightarrow> WebviewCanvas \<Rightarrow> WebviewCanvas" where
  "handleKeyDown key c =
     (if key = ''Delete'' \<and> wv_selectedNode c \<noteq> None then deleteSelectedNode c else c)"

text \<open>
  The webview's \<^verbatim>\<open>updateNodeProperty\<close> handles the property \<^verbatim>\<open>'name'\<close> only and does
  not redraw.
\<close>

definition updateNodeProperty_wv :: "string \<Rightarrow> string \<Rightarrow> jsvalue \<Rightarrow> WebviewCanvas \<Rightarrow> WebviewCanvas" where
  "updateNodeProperty_wv nodeId property v c =
     (case findNodeById (objs c) (wv_nodes c) nodeId of
        None \<Rightarrow> c
      | Some r \<Rightarrow>
          (if property = ''name''
           then (let k = node_component (objs c r)
                 in c\<lparr>comps := (comps c)(k := assignProperty ''name'' v (comps c k))\<rparr>)
           else c))"

text \<open>The webview's public \<^verbatim>\<open>addConnection\<close>; its id is \<^verbatim>\<open>connection-<clock>\<close>.\<close>

definition addConnection_wv ::
  "string \<Rightarrow> string \<Rightarrow> string \<Rightarrow> string \<Rightarrow> nat \<Rightarrow> WebviewCanvas
     \<Rightarrow> (error + unit) \<times> WebviewCanvas" where
  "addConnection_wv fromNodeId fromPortName toNodeId toPortName now c =
     (let c1 = c\<lparr>wv_connections := wv_connections c @
                   [\<lparr>conn_id = ''connection-'' @ dec now,
                     fromNode = fromNodeId, fromPort = fromPortName,
                     toNode = toNodeId, toPort = toPortName\<rparr>]\<rparr>
      in case draw_wv c1 of Inl err \<Rightarrow> (Inl err, c1) | Inr _ \<Rightarrow> (Inr (), c1))"

section \<open>Project documents (OSlandIDE)\<close>

record OSlandIDE =
  canvas :: Canvas
  projectName :: string

record ProjectDocument =
  doc_name :: "string option"
  doc_nodes :: "NodeData list option"
  doc_connections :: "Connection list option"
  doc_version :: string
  doc_timestamp :: string

text \<open>
  The methods that the class \<^verbatim>\<open>Canvas\<close> of canvas.js defines, in source order. The class
  extends no other class, its constructor assigns only data fields, and \<^verbatim>\<open>OSlandIDE\<close>
  creates its canvas with \<^verbatim>\<open>new Canvas('canvasContainer')\<close>: a property of the canvas object
  with any other name, the members of \<^verbatim>\<open>Object.prototype\<close> apart, is \<^verbatim>\<open>undefined\<close>, and
  calling it raises a TypeError.
\<close>

definition canvasMethods :: "string list" where
  "canvasMethods =
     [''init'', ''setupEventListeners'', ''handleMouseDown'', ''handleMouseMove'',
      ''handleMouseUp'', ''handleClick'', ''handleTouchStart'', ''handleTouchMove'',
      ''handleTouchEnd'', ''getMousePos'', ''getNodeAtPosition'', ''addNode'', ''removeNode'',
      ''addConnection'', ''draw'', ''drawNodes'', ''drawNode'', ''drawConnections'',
      ''drawConnectingLine'', ''updateNodeProperty'', ''getProjectData'', ''loadProjectData'',
      ''on'', ''emit'']"

text \<open>
  \<^verbatim>\<open>exportProjectData\<close> (content.js) builds an object literal: it reads
  \<^verbatim>\<open>this.projectName\<close> and then calls \<^verbatim>\<open>this.canvas.exportNodes()\<close>. \<^verbatim>\<open>Canvas\<close> defines no
  \<^verbatim>\<open>exportNodes\<close> (and no \<^verbatim>\<open>exportConnections\<close>), so the call raises a TypeError and no
  document is built; the timestamp is never read.
\<close>

definition exportProjectData :: "OSlandIDE \<Rightarrow> error + ProjectDocument" where
  "exportProjectData ide = Inl TypeError"

text \<open>
  \<^verbatim>\<open>importProjectData\<close> (content.js) returns at once for a null document. Otherwise it
  sets the project name, to \<^verbatim>\<open>Untitled Project\<close> when the document's name is absent or
  empty, and then calls \<^verbatim>\<open>this.canvas.clear()\<close>. \<^verbatim>\<open>Canvas\<close> defines no \<^verbatim>\<open>clear\<close>, so the call
  raises a TypeError: the canvas is left as it was, and the two loops over the document's
  nodes and connections, which call the equally undefined \<^verbatim>\<open>importNode\<close> and
  \<^verbatim>\<open>importConnection\<close>, are not reached. The assignment of the project name to the page's
  input element is not modelled.
\<close>

definition importProjectData ::
  "ProjectDocument option \<Rightarrow> OSlandIDE \<Rightarrow> (error + unit) \<times> OSlandIDE" where
  "importProjectData projectData ide =
     (case projectData of
        None \<Rightarrow> (Inr (), ide)
      | Some d \<Rightarrow>
          (let name = (case doc_name d of
                         None \<Rightarrow> ''Untitled Project''
                       | Some n \<Rightarrow> if n = [] then ''Untitled Project'' else n)
           in (Inl TypeError, ide\<lparr>projectName := name\<rparr>)))"

section \<open>Specification predicates and example states\<close>

text \<open>
  The spec's bounding box of a node: the axis-aligned box from its position to its
  position plus (100, 50), borders included.
\<close>

definition boundingBoxContains :: "CanvasNode \<Rightarrow> point \<Rightarrow> bool" where
  "boundingBoxContains n pos \<longleftrightarrow>
     node_x n \<le> fst pos \<and> fst pos \<le> node_x n + 100 \<and>
     node_y n \<le> snd pos \<and> snd pos \<le> node_y n + 50"

text \<open>
  The component \<^verbatim>\<open>'cpu'\<close> as the webview provider's default component list has it, with
  one input and one output port.
\<close>

definition cpu :: Component where
  "cpu = \<lparr>comp_id = ''cpu'', comp_name = ''CPU'', comp_type = ''processor'', comp_category = [],
          comp_color = ''#3498db'', comp_inputs = Some [''in''], comp_outputs = Some [''out'']\<rparr>"

text \<open>A browser canvas whose store holds the \<^verbatim>\<open>cpu\<close> component object, at reference 0.\<close>

definition cpuCanvas :: Canvas where
  "cpuCanvas = snd (allocComponent cpu newCanvas)"

text \<open>One node placed at (100, 100), in each of the two canvases.\<close>

definition oneNodeCanvas :: Canvas where
  "oneNodeCanvas = snd (addNode 0 100 100 7 ''a'' cpuCanvas)"

definition oneNodeWebview :: WebviewCanvas where
  "oneNodeWebview =
     handleAddComponentTool 7 ''a''
       ((onComponentSelected cpu newWebviewCanvas)\<lparr>wv_mousePos := (150, 125)\<rparr>)"

text \<open>A node placed at (50, 50), in each of the two canvases; the webview is in select mode.\<close>

definition dragCanvas :: Canvas where
  "dragCanvas = snd (addNode 0 50 50 7 ''a'' cpuCanvas)"

definition dragWebview :: WebviewCanvas where
  "dragWebview =
     (handleAddComponentTool 7 ''a''
        ((onComponentSelected cpu newWebviewCanvas)\<lparr>wv_mousePos := (100, 75)\<rparr>))
     \<lparr>wv_selectedTool := ''select''\<rparr>"

text \<open>
  A browser canvas with one node and a connection whose \<^verbatim>\<open>toNode\<close> names no node:
  \<^verbatim>\<open>addConnection\<close> accepts any endpoint ids.
\<close>

definition danglingCanvas :: Canvas where
  "danglingCanvas =
     snd (addConnection ''node-7-a'' ''out'' ''node-missing'' ''in'' 8 ''b'' oneNodeCanvas)"

text \<open>The webview canvas with its only node selected.\<close>

definition selectedWebview :: WebviewCanvas where
  "selectedWebview =
     (oneNodeWebview
        \<lparr>wv_connections :=
           [\<lparr>conn_id = ''c1'', fromNode = ''node-7-a'', fromPort = ''out'',
             toNode = ''node-9-z'', toPort = ''in''\<rparr>]\<rparr>)"

text \<open>
  A webview canvas with two \<^verbatim>\<open>cpu\<close> nodes, A at (0, 0) and B at (300, 0), placed by two
  clicks of the add-component tool, and then put in connect mode. (No code in the sources
  sets the tool to \<^verbatim>\<open>'connect'\<close>; the tool is chosen by the host.)
\<close>

definition connectWebview :: WebviewCanvas where
  "connectWebview =
     (snd (handleMouseDown_wv \<lparr>clientX = 350, clientY = 25\<rparr> 8 ''b''
        (snd (handleMouseDown_wv \<lparr>clientX = 50, clientY = 25\<rparr> 7 ''a''
           (onComponentSelected cpu newWebviewCanvas)))))
     \<lparr>wv_selectedTool := ''connect''\<rparr>"

text \<open>A connect gesture: press at the first point, move to the second point, release.\<close>

definition connectGesture :: "point \<Rightarrow> point \<Rightarrow> WebviewCanvas \<Rightarrow> WebviewCanvas" where
  "connectGesture p q w =
     snd (handleMouseUp_wv 9 ''c''
       (snd (handleMouseMove_wv \<lparr>clientX = fst q, clientY = snd q\<rparr>
          (snd (handleMouseDown_wv \<lparr>clientX = fst p, clientY = snd p\<rparr> 9 ''c'' w)))))"

text \<open>
  The spec's invariant of a node, "a node always carries its own input/output port list",
  for the nodes of a list.
\<close>

definition portsPresent :: "(ref \<Rightarrow> Component) \<Rightarrow> (ref \<Rightarrow> CanvasNode) \<Rightarrow> ref list \<Rightarrow> bool" where
  "portsPresent k h rs \<longleftrightarrow>
     (\<forall>r \<in> set rs. comp_inputs (k (node_component (h r))) \<noteq> None \<and>
                    comp_outputs (k (node_component (h r))) \<noteq> None)"

text \<open>
  A connection resolves when both of its node ids name a node of the list, its
  \<^verbatim>\<open>fromPort\<close> is in the output port list of the first and its \<^verbatim>\<open>toPort\<close> in the input
  port list of the second; otherwise it is dangling.
\<close>

definition resolves ::
  "(ref \<Rightarrow> Component) \<Rightarrow> (ref \<Rightarrow> CanvasNode) \<Rightarrow> ref list \<Rightarrow> Connection \<Rightarrow> bool" where
  "resolves k h rs conn =
     (case findNodeById h rs (fromNode conn) of
        None \<Rightarrow> False
      | Some f \<Rightarrow>
          (case findNodeById h rs (toNode conn) of
             None \<Rightarrow> False
           | Some t \<Rightarrow>
               (case comp_outputs (k (node_component (h f))) of
                  None \<Rightarrow> False
                | Some outs \<Rightarrow>
                    (case comp_inputs (k (node_component (h t))) of
                       None \<Rightarrow> False
                     | Some ins \<Rightarrow> fromPort conn \<in> set outs \<and> toPort conn \<in> set ins))))"

text \<open>A document node carries both port lists.\<close>

definition nodeDataHasPorts :: "NodeData \<Rightarrow> bool" where
  "nodeDataHasPorts d \<longleftrightarrow>
     comp_inputs (nd_component d) \<noteq> None \<and> comp_outputs (nd_component d) \<noteq> None"

text \<open>
  A saved project with two nodes and two connections; the second connection's
  \<^verbatim>\<open>toNode\<close> is absent from the node list.
\<close>

definition memory :: Component where
  "memory = \<lparr>comp_id = ''memory'', comp_name = ''Memory'', comp_type = ''memory'',
             comp_category = [], comp_color = ''#2ecc71'',
             comp_inputs = Some [''in''], comp_outputs = Some [''out'']\<rparr>"

definition danglingProject :: ProjectData where
  "danglingProject =
     \<lparr>pd_nodes = Some
        [\<lparr>nd_id = ''node-1-a'', nd_component = cpu, nd_x = 0, nd_y = 0\<rparr>,
         \<lparr>nd_id = ''node-2-b'', nd_component = memory, nd_x = 300, nd_y = 0\<rparr>],
      pd_connections = Some
        [\<lparr>conn_id = ''conn-3-c'', fromNode = ''node-1-a'', fromPort = ''out'',
          toNode = ''node-2-b'', toPort = ''in''\<rparr>,
         \<lparr>conn_id = ''conn-4-d'', fromNode = ''node-1-a'', fromPort = ''out'',
          toNode = ''node-9-z'', toPort = ''in''\<rparr>]\<rparr>"

definition loadedCanvas :: Canvas where
  "loadedCanvas = snd (loadProjectData danglingProject newCanvas)"

text \<open>
  The component \<^verbatim>\<open>'cpu'\<close> as the browser extension's own catalog
  (\<^verbatim>\<open>ComponentPanel.loadComponents\<close>) has it: no \<^verbatim>\<open>inputs\<close> and no \<^verbatim>\<open>outputs\<close> field.
\<close>

definition catalogCpu :: Component where
  "catalogCpu =
     \<lparr>comp_id = ''cpu'', comp_name = ''CPU'', comp_type = ''processor'',
      comp_category = ''processor'', comp_color = ''#3498db'',
      comp_inputs = None, comp_outputs = None\<rparr>"

definition catalogCanvas :: Canvas where
  "catalogCanvas = snd (allocComponent catalogCpu newCanvas)"

text \<open>The store discipline: the references of a list were allocated before.\<close>

definition allocated :: "ref \<Rightarrow> ref list \<Rightarrow> bool" where
  "allocated n rs \<longleftrightarrow> (\<forall>r \<in> set rs. r < n)"

text \<open>
  Two nodes placed from the same component object: in the browser canvas by two calls of
  \<^verbatim>\<open>addNode\<close> with the same component, in the webview by two clicks of the add-component
  tool after one selection.
\<close>

definition twoNodeCanvas :: Canvas where
  "twoNodeCanvas = snd (addNode 0 300 100 8 ''b'' oneNodeCanvas)"

definition twoNodeWebview :: WebviewCanvas where
  "twoNodeWebview =
     handleAddComponentTool 8 ''b'' (oneNodeWebview\<lparr>wv_mousePos := (350, 125)\<rparr>)"

definition disk :: Component where
  "disk = \<lparr>comp_id = ''disk'', comp_name = ''Disk'', comp_type = ''storage'',
           comp_category = [], comp_color = ''#e74c3c'',
           comp_inputs = Some [''in''], comp_outputs = Some [''out'']\<rparr>"

text \<open>
  The graph of the spec's round-trip test: three nodes from the templates \<^verbatim>\<open>cpu\<close>,
  \<^verbatim>\<open>memory\<close> and \<^verbatim>\<open>disk\<close>, and two connections.
\<close>

definition threeNodeCanvas :: Canvas where
  "threeNodeCanvas =
     snd (addConnection ''node-2-b'' ''out'' ''node-3-c'' ''in'' 5 ''e''
       (snd (addConnection ''node-1-a'' ''out'' ''node-2-b'' ''in'' 4 ''d''
         (snd (addNode 2 500 100 3 ''c''
           (snd (addNode (Suc 0) 300 100 2 ''b''
             (snd (addNode 0 100 100 1 ''a''
               (snd (allocComponent disk
                 (snd (allocComponent memory cpuCanvas)))))))))))))"

definition threeNodeIDE :: OSlandIDE where
  "threeNodeIDE = \<lparr>canvas = threeNodeCanvas, projectName = ''Demo''\<rparr>"

definition freshIDE :: OSlandIDE where
  "freshIDE = \<lparr>canvas = newCanvas, projectName = ''Untitled Project''\<rparr>"

text \<open>
  The component \<^verbatim>\<open>'memory'\<close> of the browser extension's catalog, without port lists like
  every component of that catalog.
\<close>

definition catalogMemory :: Component where
  "catalogMemory =
     \<lparr>comp_id = ''memory'', comp_name = ''Memory'', comp_type = ''memory'',
      comp_category = ''memory'', comp_color = ''#2ecc71'',
      comp_inputs = None, comp_outputs = None\<rparr>"

text \<open>
  The saved project \<^verbatim>\<open>danglingProject\<close> with the components as the browser extension's
  catalog has them: two nodes, a connection between them, and a connection whose
  \<^verbatim>\<open>toNode\<close> is absent from the node list.
\<close>

definition catalogProject :: ProjectData where
  "catalogProject =
     \<lparr>pd_nodes = Some
        [\<lparr>nd_id = ''node-1-a'', nd_component = catalogCpu, nd_x = 0, nd_y = 0\<rparr>,
         \<lparr>nd_id = ''node-2-b'', nd_component = catalogMemory, nd_x = 300, nd_y = 0\<rparr>],
      pd_connections = Some
        [\<lparr>conn_id = ''conn-3-c'', fromNode = ''node-1-a'', fromPort = ''out'',
          toNode = ''node-2-b'', toPort = ''in''\<rparr>,
         \<lparr>conn_id = ''conn-4-d'', fromNode = ''node-1-a'', fromPort = ''out'',
          toNode = ''node-9-z'', toPort = ''in''\<rparr>]\<rparr>"

definition catalogLoaded :: Canvas where
  "catalogLoaded = snd (loadProjectData catalogProject newCanvas)"

text \<open>The same two catalog nodes with the only connection the one to the absent node.\<close>

definition catalogDanglingProject :: ProjectData where
  "catalogDanglingProject =
     \<lparr>pd_nodes = Some
        [\<lparr>nd_id = ''node-1-a'', nd_component = catalogCpu, nd_x = 0, nd_y = 0\<rparr>,
         \<lparr>nd_id = ''node-2-b'', nd_component = catalogMemory, nd_x = 300, nd_y = 0\<rparr>],
      pd_connections = Some
        [\<lparr>conn_id = ''conn-4-d'', fromNode = ''node-1-a'', fromPort = ''out'',
          toNode = ''node-9-z'', toPort = ''in''\<rparr>]\<rparr>"

definition catalogDanglingLoaded :: Canvas where
  "catalogDanglingLoaded = snd (loadProjectData catalogDanglingProject newCanvas)"

text \<open>
  A saved project whose first node carries port lists and whose second node is a catalog
  component; the connection's \<^verbatim>\<open>fromPort\<close> is absent from the first node's output port
  list.
\<close>

definition mixedProject :: ProjectData where
  "mixedProject =
     \<lparr>pd_nodes = Some
        [\<lparr>nd_id = ''node-1-a'', nd_component = cpu, nd_x = 0, nd_y = 0\<rparr>,
         \<lparr>nd_id = ''node-2-b'', nd_component = catalogMemory, nd_x = 300, nd_y = 0\<rparr>],
      pd_connections = Some
        [\<lparr>conn_id = ''conn-5-e'', fromNode = ''node-1-a'', fromPort = ''nope'',
          toNode = ''node-2-b'', toPort = ''in''\<rparr>]\<rparr>"

definition mixedLoaded :: Canvas where
  "mixedLoaded = snd (loadProjectData mixedProject newCanvas)"

text \<open>
  A browser canvas after one click on the catalog's \<^verbatim>\<open>CPU\<close>: the click calls \<^verbatim>\<open>addNode\<close>
  with the catalog's component object.
\<close>

definition catalogNodeCanvas :: Canvas where
  "catalogNodeCanvas = snd (addNode 0 100 100 7 ''a'' catalogCanvas)"

text \<open>A project document with a name, no node and no connection.\<close>

definition emptyDocument :: ProjectDocument where
  "emptyDocument =
     \<lparr>doc_name = Some ''Empty'', doc_nodes = Some [], doc_connections = Some [],
      doc_version = ''1.0.0'', doc_timestamp = ''2025-01-01T00:00:00.000Z''\<rparr>"

text \<open>A project document that records the graph of \<^verbatim>\<open>threeNodeCanvas\<close>.\<close>

definition threeNodeDocument :: ProjectDocument where
  "threeNodeDocument =
     \<lparr>doc_name = Some ''Demo'',
      doc_nodes = Some
        [\<lparr>nd_id = ''node-1-a'', nd_component = cpu, nd_x = 100, nd_y = 100\<rparr>,
         \<lparr>nd_id = ''node-2-b'', nd_component = memory, nd_x = 300, nd_y = 100\<rparr>,
         \<lparr>nd_id = ''node-3-c'', nd_component = disk, nd_x = 500, nd_y = 100\<rparr>],
      doc_connections = Some
        [\<lparr>conn_id = ''conn-4-d'', fromNode = ''node-1-a'', fromPort = ''out'',
          toNode = ''node-2-b'', toPort = ''in''\<rparr>,
         \<lparr>conn_id = ''conn-5-e'', fromNode = ''node-2-b'', fromPort = ''out'',
          toNode = ''node-3-c'', toPort = ''in''\<rparr>],
      doc_version = ''1.0.0'', doc_timestamp = ''2025-01-01T00:00:00.000Z''\<rparr>"

text \<open>A first node added at the clock reading 1700000000000 with the suffix \<^verbatim>\<open>i\<close>.\<close>

definition sameTickCanvas :: Canvas where
  "sameTickCanvas = snd (addNode 0 100 100 1700000000000 ''i'' cpuCanvas)"

section \<open>Basic facts\<close>

subsection \<open>State after addNode\<close>

lemma addNode_state:
  "snd (addNode k x y now rnd c) =
     (let c2 = c\<lparr>objs := (objs c)(nextObj c :=
                      \<lparr>node_id = nodeIdOf now rnd, node_component = k, node_x = x, node_y = y\<rparr>),
                  nextObj := Suc (nextObj c),
                  nodes := nodes c @ [nextObj c],
                  selectedNode := Some (nextObj c)\<rparr>
      in case draw c2 of Inl _ \<Rightarrow> c2 | Inr _ \<Rightarrow> c2\<lparr>emitted := emitted c2 @ [NodeAdded (nextObj c)]\<rparr>)"
  by (simp add: addNode_def allocNode_def Let_def split: sum.splits)

lemma addNode_fields [simp]:
  "nodes (snd (addNode k x y now rnd c)) = nodes c @ [nextObj c]"
  "objs (snd (addNode k x y now rnd c)) =
     (objs c)(nextObj c := \<lparr>node_id = nodeIdOf now rnd, node_component = k, node_x = x, node_y = y\<rparr>)"
  "comps (snd (addNode k x y now rnd c)) = comps c"
  "nextObj (snd (addNode k x y now rnd c)) = Suc (nextObj c)"
  "nextComp (snd (addNode k x y now rnd c)) = nextComp c"
  "connections (snd (addNode k x y now rnd c)) = connections c"
  "selectedNode (snd (addNode k x y now rnd c)) = Some (nextObj c)"
  by (simp_all add: addNode_state Let_def split: sum.splits)

lemma cpuCanvas_fields [simp]:
  "nodes cpuCanvas = []" "connections cpuCanvas = []" "nextObj cpuCanvas = 0"
  "nextComp cpuCanvas = Suc 0" "comps cpuCanvas 0 = cpu" "selectedNode cpuCanvas = None"
  "emitted cpuCanvas = []" "isConnecting cpuCanvas = False" "isDragging cpuCanvas = False"
  "boundingRect cpuCanvas = (0, 0)"
  by (simp_all add: cpuCanvas_def allocComponent_def newCanvas_def)

section \<open>Hit-testing returns the first node in sequence order\<close>

lemma firstNodeAt_None:
  "firstNodeAt h rs pos = None \<longleftrightarrow> (\<forall>r \<in> set rs. \<not> boundingBoxContains (h r) pos)"
  by (induction rs) (auto simp: boundingBoxContains_def)

lemma firstNodeAt_Some:
  "firstNodeAt h rs pos = Some r \<Longrightarrow>
     \<exists>i < length rs. rs ! i = r \<and> boundingBoxContains (h r) pos \<and>
        (\<forall>j < i. \<not> boundingBoxContains (h (rs ! j)) pos)"
proof (induction rs)
  case Nil
  then show ?case by simp
next
  case (Cons a rs)
  show ?case
  proof (cases "boundingBoxContains (h a) pos")
    case True
    with Cons.prems have "r = a" by (simp add: boundingBoxContains_def)
    with True show ?thesis by (intro exI[of _ 0]) simp
  next
    case False
    with Cons.prems have "firstNodeAt h rs pos = Some r"
      by (simp add: boundingBoxContains_def split: if_splits)
    from Cons.IH[OF this] obtain i where i: "i < length rs" "rs ! i = r"
      "boundingBoxContains (h r) pos" "\<forall>j < i. \<not> boundingBoxContains (h (rs ! j)) pos"
      by blast
    have "\<forall>j < Suc i. \<not> boundingBoxContains (h ((a # rs) ! j)) pos"
      using False i(4) by (auto simp: less_Suc_eq_0_disj)
    with i show ?thesis by (intro exI[of _ "Suc i"]) simp
  qed
qed

lemma firstNodeAt_spec:
  "(case firstNodeAt h rs pos of
      None \<Rightarrow> \<forall>r \<in> set rs. \<not> boundingBoxContains (h r) pos
    | Some r \<Rightarrow> \<exists>i < length rs. rs ! i = r \<and> boundingBoxContains (h r) pos \<and>
        (\<forall>j < i. \<not> boundingBoxContains (h (rs ! j)) pos))"
  using firstNodeAt_None[of h rs pos] firstNodeAt_Some[of h rs pos]
  by (cases "firstNodeAt h rs pos") auto

text \<open>
  C6. In both canvases \<^verbatim>\<open>getNodeAtPosition\<close> returns the first node, in the order of the
  node list, whose box from its position to its position plus (100, 50) contains the
  point: the node at some index \<open>i\<close> contains it and no node at a smaller index does; it
  returns none exactly when no node's box contains the point. A single node placed at
  (100, 100) is hit by the point (150, 120) and missed by (250, 120).
\<close>

theorem getNodeAtPosition_first_in_order:
  "(case getNodeAtPosition c pos of
      None \<Rightarrow> \<forall>r \<in> set (nodes c). \<not> boundingBoxContains (objs c r) pos
    | Some r \<Rightarrow> \<exists>i < length (nodes c). nodes c ! i = r \<and> boundingBoxContains (objs c r) pos \<and>
        (\<forall>j < i. \<not> boundingBoxContains (objs c (nodes c ! j)) pos)) \<and>
   (case getNodeAtPosition_wv w pos of
      None \<Rightarrow> \<forall>r \<in> set (wv_nodes w). \<not> boundingBoxContains (objs w r) pos
    | Some r \<Rightarrow> \<exists>i < length (wv_nodes w). wv_nodes w ! i = r \<and> boundingBoxContains (objs w r) pos \<and>
        (\<forall>j < i. \<not> boundingBoxContains (objs w (wv_nodes w ! j)) pos)) \<and>
   (node_x (objs c r0) = 100 \<and> node_y (objs c r0) = 100 \<and> nodes c = [r0] \<longrightarrow>
      getNodeAtPosition c (150, 120) = Some r0 \<and> getNodeAtPosition c (250, 120) = None) \<and>
   (node_x (objs w r1) = 100 \<and> node_y (objs w r1) = 100 \<and> wv_nodes w = [r1] \<longrightarrow>
      getNodeAtPosition_wv w (150, 120) = Some r1 \<and> getNodeAtPosition_wv w (250, 120) = None)"
  unfolding getNodeAtPosition_def getNodeAtPosition_wv_def
  using firstNodeAt_spec[where h="objs c" and rs="nodes c" and pos=pos]
    firstNodeAt_spec[where h="objs w" and rs="wv_nodes w" and pos=pos]
  by simp

lemma oneNodeWebview_fields [simp]:
  "wv_nodes oneNodeWebview = [0]"
  "objs oneNodeWebview 0 =
     \<lparr>node_id = nodeIdOf 7 ''a'', node_component = 0, node_x = 100, node_y = 100\<rparr>"
  "comps oneNodeWebview 0 = cpu"
  by (simp_all add: oneNodeWebview_def handleAddComponentTool_def onComponentSelected_def
      allocComponent_def allocNode_def newWebviewCanvas_def Let_def)

theorem getNodeAtPosition_first_in_order_witness:
  "getNodeAtPosition oneNodeCanvas (150, 120) = Some 0 \<and>
   getNodeAtPosition oneNodeCanvas (250, 120) = None \<and>
   getNodeAtPosition_wv oneNodeWebview (150, 120) = Some 0 \<and>
   getNodeAtPosition_wv oneNodeWebview (250, 120) = None \<and>
   boundingBoxContains (objs oneNodeCanvas 0) (150, 120) \<and>
   \<not> boundingBoxContains (objs oneNodeCanvas 0) (250, 120)"
  using getNodeAtPosition_first_in_order[of oneNodeCanvas "(150, 120)" oneNodeWebview 0 0]
  by (simp add: oneNodeCanvas_def boundingBoxContains_def)

section \<open>Dragging\<close>

lemma handleMouseMove_state:
  "snd (handleMouseMove e c) =
     (case selectedNode c of
        Some r \<Rightarrow>
          if isDragging c
          then c\<lparr>mousePos := getMousePos c e,
                 objs := (objs c)(r := (objs c r)
                    \<lparr>node_x := fst (getMousePos c e) - fst (dragOffset c),
                     node_y := snd (getMousePos c e) - snd (dragOffset c)\<rparr>)\<rparr>
          else c\<lparr>mousePos := getMousePos c e\<rparr>
      | None \<Rightarrow> c\<lparr>mousePos := getMousePos c e\<rparr>)"
  by (simp add: handleMouseMove_def Let_def getMousePos_def split: sum.splits option.splits)

lemma handleMouseMove_wv_state:
  "snd (handleMouseMove_wv e w) =
     (let p = (clientX e - fst (wv_boundingRect w), clientY e - snd (wv_boundingRect w))
      in case wv_draggedNode w of
           Some r \<Rightarrow>
             w\<lparr>wv_mousePos := p,
               objs := (objs w)(r := (objs w r)
                  \<lparr>node_x := fst p - fst (wv_dragOffset w),
                   node_y := snd p - snd (wv_dragOffset w)\<rparr>)\<rparr>
         | None \<Rightarrow> w\<lparr>wv_mousePos := p\<rparr>)"
  by (simp add: handleMouseMove_wv_def Let_def split: sum.splits option.splits)

text \<open>
  C7. While a node is being dragged (browser canvas: \<^verbatim>\<open>isDragging\<close> with a selected node;
  webview: a dragged node), a pointer move sets that node's position to the cursor
  position minus the drag offset, for every cursor position: there is no clamping and no
  other node is consulted; the node list and the offset are unchanged and the drag goes
  on. Grabbing a node at (50, 50) at the point (60, 60) gives the offset (10, 10), and
  moving the cursor to (80, 80) puts the node at (70, 70).
\<close>

theorem handleMouseMove_drag_cursor_minus_offset:
  "(isDragging c \<and> selectedNode c = Some r \<longrightarrow>
      objs (snd (handleMouseMove e c)) =
        (objs c)(r := (objs c r)
           \<lparr>node_x := fst (getMousePos c e) - fst (dragOffset c),
            node_y := snd (getMousePos c e) - snd (dragOffset c)\<rparr>) \<and>
      nodes (snd (handleMouseMove e c)) = nodes c \<and>
      dragOffset (snd (handleMouseMove e c)) = dragOffset c \<and>
      isDragging (snd (handleMouseMove e c))) \<and>
   (wv_draggedNode w = Some r' \<longrightarrow>
      objs (snd (handleMouseMove_wv e w)) =
        (objs w)(r' := (objs w r')
           \<lparr>node_x := clientX e - fst (wv_boundingRect w) - fst (wv_dragOffset w),
            node_y := clientY e - snd (wv_boundingRect w) - snd (wv_dragOffset w)\<rparr>) \<and>
      wv_nodes (snd (handleMouseMove_wv e w)) = wv_nodes w \<and>
      wv_dragOffset (snd (handleMouseMove_wv e w)) = wv_dragOffset w \<and>
      wv_draggedNode (snd (handleMouseMove_wv e w)) = Some r') \<and>
   (boundingRect c = (0, 0) \<and> getNodeAtPosition c (60, 60) = Some r \<and>
    node_x (objs c r) = 50 \<and> node_y (objs c r) = 50 \<longrightarrow>
      dragOffset (handleMouseDown \<lparr>clientX = 60, clientY = 60\<rparr> c) = (10, 10) \<and>
      node_x (objs (snd (handleMouseMove \<lparr>clientX = 80, clientY = 80\<rparr>
                (handleMouseDown \<lparr>clientX = 60, clientY = 60\<rparr> c))) r) = 70 \<and>
      node_y (objs (snd (handleMouseMove \<lparr>clientX = 80, clientY = 80\<rparr>
                (handleMouseDown \<lparr>clientX = 60, clientY = 60\<rparr> c))) r) = 70) \<and>
   (wv_boundingRect w = (0, 0) \<and> wv_selectedTool w = ''select'' \<and>
    getNodeAtPosition_wv w (60, 60) = Some r' \<and>
    node_x (objs w r') = 50 \<and> node_y (objs w r') = 50 \<longrightarrow>
      wv_dragOffset (snd (handleMouseDown_wv \<lparr>clientX = 60, clientY = 60\<rparr> now rnd w)) = (10, 10) \<and>
      node_x (objs (snd (handleMouseMove_wv \<lparr>clientX = 80, clientY = 80\<rparr>
                (snd (handleMouseDown_wv \<lparr>clientX = 60, clientY = 60\<rparr> now rnd w)))) r') = 70 \<and>
      node_y (objs (snd (handleMouseMove_wv \<lparr>clientX = 80, clientY = 80\<rparr>
                (snd (handleMouseDown_wv \<lparr>clientX = 60, clientY = 60\<rparr> now rnd w)))) r') = 70)"
proof (intro conjI impI)
  assume "isDragging c \<and> selectedNode c = Some r"
  then show "objs (snd (handleMouseMove e c)) =
        (objs c)(r := (objs c r)
           \<lparr>node_x := fst (getMousePos c e) - fst (dragOffset c),
            node_y := snd (getMousePos c e) - snd (dragOffset c)\<rparr>)"
    "nodes (snd (handleMouseMove e c)) = nodes c"
    "dragOffset (snd (handleMouseMove e c)) = dragOffset c"
    "isDragging (snd (handleMouseMove e c))"
    by (simp_all add: handleMouseMove_state)
next
  assume "wv_draggedNode w = Some r'"
  then show "objs (snd (handleMouseMove_wv e w)) =
        (objs w)(r' := (objs w r')
           \<lparr>node_x := clientX e - fst (wv_boundingRect w) - fst (wv_dragOffset w),
            node_y := clientY e - snd (wv_boundingRect w) - snd (wv_dragOffset w)\<rparr>)"
      "wv_nodes (snd (handleMouseMove_wv e w)) = wv_nodes w"
      "wv_dragOffset (snd (handleMouseMove_wv e w)) = wv_dragOffset w"
      "wv_draggedNode (snd (handleMouseMove_wv e w)) = Some r'"
    by (simp_all add: handleMouseMove_wv_state)
next
  assume a: "boundingRect c = (0, 0) \<and> getNodeAtPosition c (60, 60) = Some r \<and>
    node_x (objs c r) = 50 \<and> node_y (objs c r) = 50"
  then show "dragOffset (handleMouseDown \<lparr>clientX = 60, clientY = 60\<rparr> c) = (10, 10)"
    by (simp add: handleMouseDown_def getMousePos_def getNodeAtPosition_def Let_def)
  from a show "node_x (objs (snd (handleMouseMove \<lparr>clientX = 80, clientY = 80\<rparr>
                (handleMouseDown \<lparr>clientX = 60, clientY = 60\<rparr> c))) r) = 70"
    by (simp add: handleMouseMove_state handleMouseDown_def getMousePos_def
        getNodeAtPosition_def Let_def)
  from a show "node_y (objs (snd (handleMouseMove \<lparr>clientX = 80, clientY = 80\<rparr>
                (handleMouseDown \<lparr>clientX = 60, clientY = 60\<rparr> c))) r) = 70"
    by (simp add: handleMouseMove_state handleMouseDown_def getMousePos_def
        getNodeAtPosition_def Let_def)
next
  assume a: "wv_boundingRect w = (0, 0) \<and> wv_selectedTool w = ''select'' \<and>
    getNodeAtPosition_wv w (60, 60) = Some r' \<and>
    node_x (objs w r') = 50 \<and> node_y (objs w r') = 50"
  then show "wv_dragOffset (snd (handleMouseDown_wv \<lparr>clientX = 60, clientY = 60\<rparr> now rnd w)) = (10, 10)"
    by (simp add: handleMouseDown_wv_def handleSelectTool_def getNodeAtPosition_wv_def Let_def)
  from a show "node_x (objs (snd (handleMouseMove_wv \<lparr>clientX = 80, clientY = 80\<rparr>
                (snd (handleMouseDown_wv \<lparr>clientX = 60, clientY = 60\<rparr> now rnd w)))) r') = 70"
    by (simp add: handleMouseMove_wv_state handleMouseDown_wv_def handleSelectTool_def
        getNodeAtPosition_wv_def Let_def)
  from a show "node_y (objs (snd (handleMouseMove_wv \<lparr>clientX = 80, clientY = 80\<rparr>
                (snd (handleMouseDown_wv \<lparr>clientX = 60, clientY = 60\<rparr> now rnd w)))) r') = 70"
    by (simp add: handleMouseMove_wv_state handleMouseDown_wv_def handleSelectTool_def
        getNodeAtPosition_wv_def Let_def)
qed

lemma dragCanvas_fields [simp]:
  "nodes dragCanvas = [0]"
  "objs dragCanvas 0 = \<lparr>node_id = nodeIdOf 7 ''a'', node_component = 0, node_x = 50, node_y = 50\<rparr>"
  "boundingRect dragCanvas = (0, 0)"
  by (simp_all add: dragCanvas_def addNode_state Let_def split: sum.splits)

lemma dragWebview_fields [simp]:
  "wv_nodes dragWebview = [0]"
  "objs dragWebview 0 = \<lparr>node_id = nodeIdOf 7 ''a'', node_component = 0, node_x = 50, node_y = 50\<rparr>"
  "wv_boundingRect dragWebview = (0, 0)"
  "wv_selectedTool dragWebview = ''select''"
  by (simp_all add: dragWebview_def handleAddComponentTool_def onComponentSelected_def
      allocComponent_def allocNode_def newWebviewCanvas_def Let_def)

theorem handleMouseMove_drag_cursor_minus_offset_witness:
  "getNodeAtPosition dragCanvas (60, 60) = Some 0 \<and>
   node_x (objs (snd (handleMouseMove \<lparr>clientX = 80, clientY = 80\<rparr>
      (handleMouseDown \<lparr>clientX = 60, clientY = 60\<rparr> dragCanvas))) 0) = 70 \<and>
   node_y (objs (snd (handleMouseMove \<lparr>clientX = 80, clientY = 80\<rparr>
      (handleMouseDown \<lparr>clientX = 60, clientY = 60\<rparr> dragCanvas))) 0) = 70 \<and>
   getNodeAtPosition_wv dragWebview (60, 60) = Some 0 \<and>
   node_x (objs (snd (handleMouseMove_wv \<lparr>clientX = 80, clientY = 80\<rparr>
      (snd (handleMouseDown_wv \<lparr>clientX = 60, clientY = 60\<rparr> 8 ''b'' dragWebview)))) 0) = 70 \<and>
   node_y (objs (snd (handleMouseMove_wv \<lparr>clientX = 80, clientY = 80\<rparr>
      (snd (handleMouseDown_wv \<lparr>clientX = 60, clientY = 60\<rparr> 8 ''b'' dragWebview)))) 0) = 70 \<and>
   isDragging (handleMouseDown \<lparr>clientX = 60, clientY = 60\<rparr> dragCanvas) \<and>
   selectedNode (handleMouseDown \<lparr>clientX = 60, clientY = 60\<rparr> dragCanvas) = Some 0 \<and>
   node_x (objs (snd (handleMouseMove \<lparr>clientX = - 5000, clientY = 90000\<rparr>
      (handleMouseDown \<lparr>clientX = 60, clientY = 60\<rparr> dragCanvas))) 0) = - 5010 \<and>
   node_y (objs (snd (handleMouseMove \<lparr>clientX = - 5000, clientY = 90000\<rparr>
      (handleMouseDown \<lparr>clientX = 60, clientY = 60\<rparr> dragCanvas))) 0) = 89990"
  using handleMouseMove_drag_cursor_minus_offset[of dragCanvas 0
      "\<lparr>clientX = 80, clientY = 80\<rparr>" dragWebview 0 8 "''b''"]
    handleMouseMove_drag_cursor_minus_offset[of
      "handleMouseDown \<lparr>clientX = 60, clientY = 60\<rparr> dragCanvas" 0
      "\<lparr>clientX = - 5000, clientY = 90000\<rparr>" dragWebview 0 8 "''b''"]
  by (simp add: getNodeAtPosition_def getNodeAtPosition_wv_def handleMouseDown_def
      getMousePos_def Let_def)

section \<open>Removing a node\<close>

lemma dec_digit: "n < 10 \<Longrightarrow> dec n = [digit n]"
  by (simp add: dec.simps)

lemma nodeIdOf_7a [simp]: "nodeIdOf 7 ''a'' = ''node-7-a''"
  by (simp add: nodeIdOf_def dec_digit digit_def)

lemma removeNode_state:
  "snd (removeNode nodeId c) =
     (let c1 = c\<lparr>nodes := filter (\<lambda>r. node_id (objs c r) \<noteq> nodeId) (nodes c),
                 connections :=
                   filter (\<lambda>conn. fromNode conn \<noteq> nodeId \<and> toNode conn \<noteq> nodeId)
                     (connections c)\<rparr>
      in case selectedNode c of
           Some s \<Rightarrow>
             if node_id (objs c s) = nodeId
             then c1\<lparr>selectedNode := None, emitted := emitted c @ [NodeSelected None]\<rparr>
             else c1
         | None \<Rightarrow> c1)"
  by (simp add: removeNode_def Let_def split: sum.splits option.splits)

lemma removeNode_fields [simp]:
  "nodes (snd (removeNode nodeId c)) = filter (\<lambda>r. node_id (objs c r) \<noteq> nodeId) (nodes c)"
  "connections (snd (removeNode nodeId c)) =
     filter (\<lambda>conn. fromNode conn \<noteq> nodeId \<and> toNode conn \<noteq> nodeId) (connections c)"
  "objs (snd (removeNode nodeId c)) = objs c"
  "comps (snd (removeNode nodeId c)) = comps c"
  by (simp_all add: removeNode_state Let_def split: option.splits)

lemma addConnection_state:
  "snd (addConnection f fp t tp now rnd c) =
     (let conn = \<lparr>conn_id = connIdOf now rnd, fromNode = f, fromPort = fp,
                   toNode = t, toPort = tp\<rparr>;
          c1 = c\<lparr>connections := connections c @ [conn]\<rparr>
      in case draw c1 of Inl _ \<Rightarrow> c1 | Inr _ \<Rightarrow> c1\<lparr>emitted := emitted c @ [ConnectionAdded conn]\<rparr>)"
  by (simp add: addConnection_def Let_def split: sum.splits)

lemma addConnection_fields [simp]:
  "connections (snd (addConnection f fp t tp now rnd c)) =
     connections c @ [\<lparr>conn_id = connIdOf now rnd, fromNode = f, fromPort = fp,
                        toNode = t, toPort = tp\<rparr>]"
  "nodes (snd (addConnection f fp t tp now rnd c)) = nodes c"
  "objs (snd (addConnection f fp t tp now rnd c)) = objs c"
  "comps (snd (addConnection f fp t tp now rnd c)) = comps c"
  "selectedNode (snd (addConnection f fp t tp now rnd c)) = selectedNode c"
  by (simp_all add: addConnection_state Let_def split: sum.splits)

lemma filter_id_conv': "(\<forall>x \<in> set xs. P x) \<Longrightarrow> filter P xs = xs"
  by (induction xs) auto

text \<open>
  C2, as the code has it. After \<^verbatim>\<open>removeNode(id)\<close> no node of the list has that id and no
  connection has it as \<^verbatim>\<open>fromNode\<close> or \<^verbatim>\<open>toNode\<close>; the other nodes and connections are
  kept, in order, and nothing else of the model changes but the selection: a selected node
  that carries the id is deselected and \<^verbatim>\<open>nodeSelected(null)\<close> is emitted, any other
  selection is kept. The call then redraws, and raises only if the redraw does. When no
  node has the id the node list is unchanged, but the connections that name the id are
  removed all the same: the model is unchanged exactly when no node has the id, no
  connection names it and the selected node does not carry it. The webview's
  \<^verbatim>\<open>deleteSelectedNode\<close> removes the nodes with the selected node's id and every connection
  that names it, and clears the selection; without a selection it changes nothing.
\<close>

theorem removeNode_cascades:
  "(\<forall>r \<in> set (nodes (snd (removeNode nodeId c))).
      node_id (objs (snd (removeNode nodeId c)) r) \<noteq> nodeId) \<and>
   (\<forall>conn \<in> set (connections (snd (removeNode nodeId c))).
      fromNode conn \<noteq> nodeId \<and> toNode conn \<noteq> nodeId) \<and>
   snd (removeNode nodeId c) =
     c\<lparr>nodes := filter (\<lambda>r. node_id (objs c r) \<noteq> nodeId) (nodes c),
       connections :=
         filter (\<lambda>conn. fromNode conn \<noteq> nodeId \<and> toNode conn \<noteq> nodeId) (connections c),
       selectedNode :=
         (case selectedNode c of
            None \<Rightarrow> None
          | Some s \<Rightarrow> if node_id (objs c s) = nodeId then None else Some s),
       emitted :=
         (case selectedNode c of
            None \<Rightarrow> emitted c
          | Some s \<Rightarrow> if node_id (objs c s) = nodeId
                      then emitted c @ [NodeSelected None] else emitted c)\<rparr> \<and>
   fst (removeNode nodeId c) =
     (case draw (snd (removeNode nodeId c)) of Inl err \<Rightarrow> Inl err | Inr _ \<Rightarrow> Inr ()) \<and>
   ((\<forall>r \<in> set (nodes c). node_id (objs c r) \<noteq> nodeId) \<longrightarrow>
      nodes (snd (removeNode nodeId c)) = nodes c) \<and>
   (\<forall>s. selectedNode c = Some s \<and> node_id (objs c s) = nodeId \<longrightarrow>
      selectedNode (snd (removeNode nodeId c)) = None \<and>
      emitted (snd (removeNode nodeId c)) = emitted c @ [NodeSelected None]) \<and>
   (snd (removeNode nodeId c) = c \<longleftrightarrow>
      (\<forall>r \<in> set (nodes c). node_id (objs c r) \<noteq> nodeId) \<and>
      (\<forall>conn \<in> set (connections c). fromNode conn \<noteq> nodeId \<and> toNode conn \<noteq> nodeId) \<and>
      (\<forall>s. selectedNode c = Some s \<longrightarrow> node_id (objs c s) \<noteq> nodeId)) \<and>
   (wv_selectedNode w = Some s \<longrightarrow>
      deleteSelectedNode w =
        w\<lparr>wv_connections :=
            filter (\<lambda>conn. fromNode conn \<noteq> node_id (objs w s) \<and> toNode conn \<noteq> node_id (objs w s))
              (wv_connections w),
          wv_nodes := filter (\<lambda>r. node_id (objs w r) \<noteq> node_id (objs w s)) (wv_nodes w),
          wv_selectedNode := None\<rparr> \<and>
      (\<forall>r \<in> set (wv_nodes (deleteSelectedNode w)).
         node_id (objs (deleteSelectedNode w) r) \<noteq> node_id (objs w s)) \<and>
      (\<forall>conn \<in> set (wv_connections (deleteSelectedNode w)).
         fromNode conn \<noteq> node_id (objs w s) \<and> toNode conn \<noteq> node_id (objs w s)) \<and>
      wv_selectedNode (deleteSelectedNode w) = None) \<and>
   (wv_selectedNode w = None \<longrightarrow> deleteSelectedNode w = w)"
proof -
  let ?P = "\<lambda>r. node_id (objs c r) \<noteq> nodeId"
  let ?Q = "\<lambda>conn. fromNode conn \<noteq> nodeId \<and> toNode conn \<noteq> nodeId"
  have st: "snd (removeNode nodeId c) =
     c\<lparr>nodes := filter ?P (nodes c),
       connections := filter ?Q (connections c),
       selectedNode :=
         (case selectedNode c of
            None \<Rightarrow> None
          | Some s \<Rightarrow> if node_id (objs c s) = nodeId then None else Some s),
       emitted :=
         (case selectedNode c of
            None \<Rightarrow> emitted c
          | Some s \<Rightarrow> if node_id (objs c s) = nodeId
                      then emitted c @ [NodeSelected None] else emitted c)\<rparr>"
    by (simp add: removeNode_state Let_def split: option.splits)
  have res: "fst (removeNode nodeId c) =
     (case draw (snd (removeNode nodeId c)) of Inl err \<Rightarrow> Inl err | Inr _ \<Rightarrow> Inr ())"
    by (simp add: removeNode_def Let_def split: sum.splits option.splits)
  have sel: "\<forall>s. selectedNode c = Some s \<and> node_id (objs c s) = nodeId \<longrightarrow>
      selectedNode (snd (removeNode nodeId c)) = None \<and>
      emitted (snd (removeNode nodeId c)) = emitted c @ [NodeSelected None]"
    by (simp add: st)
  have iff: "snd (removeNode nodeId c) = c \<longleftrightarrow>
      (\<forall>r \<in> set (nodes c). ?P r) \<and> (\<forall>conn \<in> set (connections c). ?Q conn) \<and>
      (\<forall>s. selectedNode c = Some s \<longrightarrow> node_id (objs c s) \<noteq> nodeId)"
  proof
    assume e: "snd (removeNode nodeId c) = c"
    have "nodes (snd (removeNode nodeId c)) = filter ?P (nodes c)" by simp
    with e have n: "filter ?P (nodes c) = nodes c" by simp
    have "connections (snd (removeNode nodeId c)) = filter ?Q (connections c)" by simp
    with e have k: "filter ?Q (connections c) = connections c" by simp
    have "selectedNode (snd (removeNode nodeId c)) =
         (case selectedNode c of
            None \<Rightarrow> None
          | Some s \<Rightarrow> if node_id (objs c s) = nodeId then None else Some s)"
      by (simp add: st)
    with e have "\<forall>s. selectedNode c = Some s \<longrightarrow> node_id (objs c s) \<noteq> nodeId"
      by (auto split: option.splits if_splits)
    with n k show "(\<forall>r \<in> set (nodes c). ?P r) \<and> (\<forall>conn \<in> set (connections c). ?Q conn) \<and>
      (\<forall>s. selectedNode c = Some s \<longrightarrow> node_id (objs c s) \<noteq> nodeId)"
      by (simp only: filter_id_conv) 
  next
    assume a: "(\<forall>r \<in> set (nodes c). ?P r) \<and> (\<forall>conn \<in> set (connections c). ?Q conn) \<and>
      (\<forall>s. selectedNode c = Some s \<longrightarrow> node_id (objs c s) \<noteq> nodeId)"
    then have "filter ?P (nodes c) = nodes c" and "filter ?Q (connections c) = connections c"
      by (simp_all add: filter_id_conv')
    with a show "snd (removeNode nodeId c) = c"
      by (simp add: removeNode_state Let_def split: option.splits)
  qed
  have wv: "wv_selectedNode w = Some s \<longrightarrow>
      deleteSelectedNode w =
        w\<lparr>wv_connections :=
            filter (\<lambda>conn. fromNode conn \<noteq> node_id (objs w s) \<and> toNode conn \<noteq> node_id (objs w s))
              (wv_connections w),
          wv_nodes := filter (\<lambda>r. node_id (objs w r) \<noteq> node_id (objs w s)) (wv_nodes w),
          wv_selectedNode := None\<rparr> \<and>
      (\<forall>r \<in> set (wv_nodes (deleteSelectedNode w)).
         node_id (objs (deleteSelectedNode w) r) \<noteq> node_id (objs w s)) \<and>
      (\<forall>conn \<in> set (wv_connections (deleteSelectedNode w)).
         fromNode conn \<noteq> node_id (objs w s) \<and> toNode conn \<noteq> node_id (objs w s)) \<and>
      wv_selectedNode (deleteSelectedNode w) = None"
    by (simp add: deleteSelectedNode_def)
  have wn: "wv_selectedNode w = None \<longrightarrow> deleteSelectedNode w = w"
    by (simp add: deleteSelectedNode_def)
  have b1: "\<forall>r \<in> set (nodes (snd (removeNode nodeId c))).
      node_id (objs (snd (removeNode nodeId c)) r) \<noteq> nodeId" by simp
  have b2: "\<forall>conn \<in> set (connections (snd (removeNode nodeId c))).
      fromNode conn \<noteq> nodeId \<and> toNode conn \<noteq> nodeId" by simp
  have b3: "(\<forall>r \<in> set (nodes c). node_id (objs c r) \<noteq> nodeId) \<longrightarrow>
      nodes (snd (removeNode nodeId c)) = nodes c"
    by (simp add: filter_id_conv')
  from b1 b2 st res b3 sel iff wv wn show ?thesis by blast
qed

lemma danglingCanvas_fields [simp]:
  "nodes danglingCanvas = [0]"
  "objs danglingCanvas 0 =
     \<lparr>node_id = ''node-7-a'', node_component = 0, node_x = 100, node_y = 100\<rparr>"
  "connections danglingCanvas =
     [\<lparr>conn_id = connIdOf 8 ''b'', fromNode = ''node-7-a'', fromPort = ''out'',
       toNode = ''node-missing'', toPort = ''in''\<rparr>]"
  by (simp_all add: danglingCanvas_def oneNodeCanvas_def)

theorem removeNode_cascades_witness:
  "selectedNode danglingCanvas = Some 0 \<and>
   nodes (snd (removeNode ''node-7-a'' danglingCanvas)) = [] \<and>
   connections (snd (removeNode ''node-7-a'' danglingCanvas)) = [] \<and>
   selectedNode (snd (removeNode ''node-7-a'' danglingCanvas)) = None \<and>
   emitted (snd (removeNode ''node-7-a'' danglingCanvas)) =
     emitted danglingCanvas @ [NodeSelected None] \<and>
   nodes (snd (removeNode ''node-0-x'' danglingCanvas)) = nodes danglingCanvas \<and>
   snd (removeNode ''node-0-x'' danglingCanvas) = danglingCanvas \<and>
   wv_selectedNode selectedWebview = Some 0 \<and>
   wv_nodes (deleteSelectedNode selectedWebview) = [] \<and>
   wv_connections (deleteSelectedNode selectedWebview) = [] \<and>
   wv_selectedNode newWebviewCanvas = None \<and>
   deleteSelectedNode newWebviewCanvas = newWebviewCanvas"
  using removeNode_cascades[of "''node-7-a''" danglingCanvas selectedWebview 0]
    removeNode_cascades[of "''node-0-x''" danglingCanvas newWebviewCanvas 0]
  by (simp add: selectedWebview_def deleteSelectedNode_def oneNodeWebview_def
      handleAddComponentTool_def onComponentSelected_def allocComponent_def allocNode_def
      newWebviewCanvas_def Let_def danglingCanvas_def oneNodeCanvas_def)

text \<open>
  The claim's last part fails: no node has the id \<^verbatim>\<open>node-missing\<close>, and
  \<^verbatim>\<open>removeNode('node-missing')\<close> removes the connection that names it.
\<close>

theorem removeNode_unknown_id_counterexample:
  "''node-missing'' \<notin> set (map (\<lambda>r. node_id (objs danglingCanvas r)) (nodes danglingCanvas)) \<and>
   length (connections danglingCanvas) = 1 \<and>
   connections (snd (removeNode ''node-missing'' danglingCanvas)) = [] \<and>
   snd (removeNode ''node-missing'' danglingCanvas) \<noteq> danglingCanvas"
proof -
  have "connections (snd (removeNode ''node-missing'' danglingCanvas)) = []" by simp
  moreover have "connections danglingCanvas \<noteq> []" by simp
  ultimately have "snd (removeNode ''node-missing'' danglingCanvas) \<noteq> danglingCanvas"
    by metis
  then show ?thesis by simp
qed

section \<open>The connect gesture\<close>

lemma nodeIdOf_8b [simp]: "nodeIdOf 8 ''b'' = ''node-8-b''"
  by (simp add: nodeIdOf_def dec_digit digit_def)

lemma upt_Suc_0 [simp]: "[0..<Suc 0] = [0]"
  by (simp add: upt_rec)

lemma connectWebview_eq:
  "connectWebview =
     \<lparr>comps = (\<lambda>_. emptyComponent)(0 := cpu),
      objs = (\<lambda>_. emptyNode)
        (0 := \<lparr>node_id = ''node-7-a'', node_component = 0, node_x = 0, node_y = 0\<rparr>,
         Suc 0 := \<lparr>node_id = ''node-8-b'', node_component = 0, node_x = 300, node_y = 0\<rparr>),
      nextComp = Suc 0, nextObj = Suc (Suc 0),
      wv_nodes = [0, Suc 0], wv_connections = [], wv_selectedTool = ''connect'',
      wv_selectedNode = Some (Suc 0), wv_draggedNode = None, wv_dragOffset = (0, 0),
      wv_isConnecting = False, wv_connectingFrom = None, wv_mousePos = (350, 25),
      wv_selectedComponent = Some 0, wv_boundingRect = (0, 0), wv_posted = [0, Suc 0]\<rparr>"
  by (simp add: connectWebview_def handleMouseDown_wv_def handleAddComponentTool_def
      onComponentSelected_def allocComponent_def allocNode_def newWebviewCanvas_def Let_def)

lemma connectWebview_fields [simp]:
  "comps connectWebview 0 = cpu"
  "objs connectWebview 0 = \<lparr>node_id = ''node-7-a'', node_component = 0, node_x = 0, node_y = 0\<rparr>"
  "objs connectWebview (Suc 0) =
     \<lparr>node_id = ''node-8-b'', node_component = 0, node_x = 300, node_y = 0\<rparr>"
  "wv_nodes connectWebview = [0, Suc 0]"
  "wv_connections connectWebview = []"
  "wv_selectedTool connectWebview = ''connect''"
  "wv_draggedNode connectWebview = None"
  "wv_isConnecting connectWebview = False"
  "wv_connectingFrom connectWebview = None"
  "wv_boundingRect connectWebview = (0, 0)"
  by (simp_all add: connectWebview_eq)

lemma connectWebview_ports:
  "getPortAtPosition connectWebview (- 10, 15) = Inr (Some (''node-7-a'', ''in''))"
  "getPortAtPosition connectWebview (110, 15) = Inr (Some (''node-7-a'', ''out''))"
  "getPortAtPosition connectWebview (290, 15) = Inr (Some (''node-8-b'', ''in''))"
  "getPortAtPosition connectWebview (410, 15) = Inr (Some (''node-8-b'', ''out''))"
  "getPortAtPosition connectWebview (200, 200) = Inr None"
  by (simp_all add: getPortAtPosition_def cpu_def portHit_def)

lemma getPortAtPosition_frame:
  "comps w' = comps w \<Longrightarrow> objs w' = objs w \<Longrightarrow> wv_nodes w' = wv_nodes w \<Longrightarrow>
   getPortAtPosition w' pos = getPortAtPosition w pos"
  by (simp add: getPortAtPosition_def)

lemma completeConnection_state:
  "snd (completeConnection now rnd w) =
     (case getPortAtPosition w (wv_mousePos w) of
        Inl _ \<Rightarrow> w
      | Inr None \<Rightarrow> w\<lparr>wv_isConnecting := False, wv_connectingFrom := None\<rparr>
      | Inr (Some (nodeId, portId)) \<Rightarrow>
          (case wv_connectingFrom w of
             None \<Rightarrow> w\<lparr>wv_isConnecting := False, wv_connectingFrom := None\<rparr>
           | Some (fromNodeId, fromPortId) \<Rightarrow>
               if nodeId \<noteq> fromNodeId
               then w\<lparr>wv_connections := wv_connections w @
                        [\<lparr>conn_id = connIdOf now rnd,
                          fromNode = fromNodeId, fromPort = fromPortId,
                          toNode = nodeId, toPort = portId\<rparr>],
                      wv_isConnecting := False, wv_connectingFrom := None\<rparr>
               else w\<lparr>wv_isConnecting := False, wv_connectingFrom := None\<rparr>))"
  by (simp add: completeConnection_def Let_def split: sum.splits option.splits prod.splits)

lemma completeConnection_connections:
  "wv_connections (snd (completeConnection now rnd w)) =
     (case getPortAtPosition w (wv_mousePos w) of
        Inr (Some (nodeId, portId)) \<Rightarrow>
          (case wv_connectingFrom w of
             Some (fromNodeId, fromPortId) \<Rightarrow>
               if nodeId \<noteq> fromNodeId
               then wv_connections w @
                      [\<lparr>conn_id = connIdOf now rnd,
                        fromNode = fromNodeId, fromPort = fromPortId,
                        toNode = nodeId, toPort = portId\<rparr>]
               else wv_connections w
           | None \<Rightarrow> wv_connections w)
      | _ \<Rightarrow> wv_connections w)"
  by (simp add: completeConnection_state split: sum.splits option.splits prod.splits)

text \<open>The three steps of a gesture on the example canvas.\<close>

lemma press_connectWebview:
  "getPortAtPosition connectWebview p = Inr (Some port) \<Longrightarrow>
   snd (handleMouseDown_wv \<lparr>clientX = fst p, clientY = snd p\<rparr> now rnd connectWebview) =
     connectWebview\<lparr>wv_mousePos := p, wv_isConnecting := True, wv_connectingFrom := Some port\<rparr>"
  using getPortAtPosition_frame[of "connectWebview\<lparr>wv_mousePos := p\<rparr>" connectWebview p]
  by (simp add: handleMouseDown_wv_def handleConnectTool_def Let_def)

lemma connectGesture_connectWebview:
  assumes "getPortAtPosition connectWebview p = Inr (Some (a, pa))"
    and "getPortAtPosition connectWebview q = Inr (Some (b, pb))"
  shows "wv_connections (connectGesture p q connectWebview) =
           (if b \<noteq> a
            then [\<lparr>conn_id = connIdOf 9 ''c'', fromNode = a, fromPort = pa,
                    toNode = b, toPort = pb\<rparr>]
            else [])"
proof -
  let ?w1 = "connectWebview\<lparr>wv_mousePos := p, wv_isConnecting := True,
              wv_connectingFrom := Some (a, pa)\<rparr>"
  let ?w2 = "?w1\<lparr>wv_mousePos := q\<rparr>"
  have 1: "snd (handleMouseDown_wv \<lparr>clientX = fst p, clientY = snd p\<rparr> 9 ''c'' connectWebview) = ?w1"
    using assms(1) by (rule press_connectWebview)
  have 2: "snd (handleMouseMove_wv \<lparr>clientX = fst q, clientY = snd q\<rparr> ?w1) = ?w2"
    by (simp add: handleMouseMove_wv_state Let_def)
  have 3: "getPortAtPosition ?w2 (wv_mousePos ?w2) = Inr (Some (b, pb))"
    using assms(2) getPortAtPosition_frame[of ?w2 connectWebview q] by simp
  have "wv_connections (snd (handleMouseUp_wv 9 ''c'' ?w2)) =
          (if b \<noteq> a
            then [\<lparr>conn_id = connIdOf 9 ''c'', fromNode = a, fromPort = pa,
                    toNode = b, toPort = pb\<rparr>]
            else [])"
    unfolding handleMouseUp_wv_def using 3
    by (simp add: completeConnection_connections)
  then show ?thesis
    unfolding connectGesture_def 1 2 .
qed

text \<open>
  C10. When the connect gesture completes, a connection is committed exactly when a port
  is under the last cursor position, an origin is recorded, and the port's node id differs
  from the origin's node id; the committed connection takes the origin as
  \<^verbatim>\<open>fromNode\<close>/\<^verbatim>\<open>fromPort\<close> and the port found as \<^verbatim>\<open>toNode\<close>/\<^verbatim>\<open>toPort\<close>, whatever the
  directions of the two ports. On the example canvas a gesture from A's input port to B's
  output port commits a connection whose \<^verbatim>\<open>fromPort\<close> is an input of A (and no output of
  A) and whose \<^verbatim>\<open>toPort\<close> is an output of B (and no input of B).
\<close>

theorem completeConnection_checks_node_identity_only:
  "wv_connections (snd (completeConnection now rnd w)) =
     (case getPortAtPosition w (wv_mousePos w) of
        Inr (Some (nodeId, portId)) \<Rightarrow>
          (case wv_connectingFrom w of
             Some (fromNodeId, fromPortId) \<Rightarrow>
               if nodeId \<noteq> fromNodeId
               then wv_connections w @
                      [\<lparr>conn_id = connIdOf now rnd,
                        fromNode = fromNodeId, fromPort = fromPortId,
                        toNode = nodeId, toPort = portId\<rparr>]
               else wv_connections w
           | None \<Rightarrow> wv_connections w)
      | _ \<Rightarrow> wv_connections w) \<and>
   wv_connections (connectGesture (- 10, 15) (410, 15) connectWebview) =
     [\<lparr>conn_id = connIdOf 9 ''c'', fromNode = ''node-7-a'', fromPort = ''in'',
       toNode = ''node-8-b'', toPort = ''out''\<rparr>] \<and>
   node_id (objs connectWebview 0) = ''node-7-a'' \<and>
   node_id (objs connectWebview (Suc 0)) = ''node-8-b'' \<and>
   comp_inputs (componentOf connectWebview 0) = Some [''in''] \<and>
   comp_outputs (componentOf connectWebview 0) = Some [''out''] \<and>
   comp_inputs (componentOf connectWebview (Suc 0)) = Some [''in''] \<and>
   comp_outputs (componentOf connectWebview (Suc 0)) = Some [''out'']"
  using connectGesture_connectWebview[OF connectWebview_ports(1) connectWebview_ports(4)]
  by (simp add: completeConnection_connections componentOf_def cpu_def)

theorem completeConnection_checks_node_identity_only_witness:
  "getPortAtPosition connectWebview (410, 15) = Inr (Some (''node-8-b'', ''out'')) \<and>
   wv_connections
     (snd (completeConnection 9 ''c''
        (connectWebview\<lparr>wv_mousePos := (410, 15), wv_isConnecting := True,
                         wv_connectingFrom := Some (''node-7-a'', ''in'')\<rparr>))) =
     [\<lparr>conn_id = connIdOf 9 ''c'', fromNode = ''node-7-a'', fromPort = ''in'',
       toNode = ''node-8-b'', toPort = ''out''\<rparr>]"
  using completeConnection_checks_node_identity_only[of 9 "''c''"
      "connectWebview\<lparr>wv_mousePos := (410, 15), wv_isConnecting := True,
                       wv_connectingFrom := Some (''node-7-a'', ''in'')\<rparr>"]
    getPortAtPosition_frame[of "connectWebview\<lparr>wv_mousePos := (410, 15), wv_isConnecting := True,
                       wv_connectingFrom := Some (''node-7-a'', ''in'')\<rparr>" connectWebview "(410, 15)"]
  by (simp add: connectWebview_ports)

section \<open>Self-loops\<close>

lemma addConnection_wv_connections:
  "wv_connections (snd (addConnection_wv f fp t tp now w)) =
     wv_connections w @ [\<lparr>conn_id = ''connection-'' @ dec now, fromNode = f, fromPort = fp,
                           toNode = t, toPort = tp\<rparr>]"
  by (simp add: addConnection_wv_def Let_def split: sum.splits)

text \<open>
  C3, as the code has it. The self-loop check belongs to the connect gesture:
  \<^verbatim>\<open>completeConnection\<close> leaves the connection list as it is or appends one connection
  whose \<^verbatim>\<open>fromNode\<close> differs from its \<^verbatim>\<open>toNode\<close>, and a release over a port of the origin
  node leaves the connection list unchanged. \<^verbatim>\<open>addConnection\<close> itself, in both canvases,
  appends exactly the connection it is given, whatever its endpoints.
\<close>

theorem completeConnection_never_self_loop:
  "(wv_connections (snd (completeConnection now rnd w)) = wv_connections w \<or>
    (\<exists>conn. wv_connections (snd (completeConnection now rnd w)) = wv_connections w @ [conn] \<and>
            fromNode conn \<noteq> toNode conn)) \<and>
   (getPortAtPosition w (wv_mousePos w) = Inr (Some (nodeId, portId)) \<and>
    wv_connectingFrom w = Some (nodeId, fromPortId) \<longrightarrow>
      wv_connections (snd (completeConnection now rnd w)) = wv_connections w \<and>
      length (wv_connections (snd (completeConnection now rnd w))) = length (wv_connections w)) \<and>
   connections (snd (addConnection f fp t tp now rnd c)) =
     connections c @ [\<lparr>conn_id = connIdOf now rnd, fromNode = f, fromPort = fp,
                        toNode = t, toPort = tp\<rparr>] \<and>
   wv_connections (snd (addConnection_wv f fp t tp now w)) =
     wv_connections w @ [\<lparr>conn_id = ''connection-'' @ dec now, fromNode = f, fromPort = fp,
                           toNode = t, toPort = tp\<rparr>]"
  by (auto simp: completeConnection_connections addConnection_wv_connections
      split: sum.splits option.splits)

theorem completeConnection_never_self_loop_witness:
  "getPortAtPosition connectWebview (- 10, 15) = Inr (Some (''node-7-a'', ''in'')) \<and>
   wv_connections
     (snd (completeConnection 9 ''c''
        (connectWebview\<lparr>wv_mousePos := (- 10, 15), wv_isConnecting := True,
                         wv_connectingFrom := Some (''node-7-a'', ''out'')\<rparr>))) = [] \<and>
   wv_connections (connectGesture (110, 15) (- 10, 15) connectWebview) = [] \<and>
   wv_connections (connectGesture (110, 15) (290, 15) connectWebview) =
     [\<lparr>conn_id = connIdOf 9 ''c'', fromNode = ''node-7-a'', fromPort = ''out'',
       toNode = ''node-8-b'', toPort = ''in''\<rparr>]"
  using completeConnection_never_self_loop[of 9 "''c''"
      "connectWebview\<lparr>wv_mousePos := (- 10, 15), wv_isConnecting := True,
                       wv_connectingFrom := Some (''node-7-a'', ''out'')\<rparr>"
      "''node-7-a''" "''in''" "''out''"]
    getPortAtPosition_frame[of "connectWebview\<lparr>wv_mousePos := (- 10, 15), wv_isConnecting := True,
                       wv_connectingFrom := Some (''node-7-a'', ''out'')\<rparr>" connectWebview "(- 10, 15)"]
    connectGesture_connectWebview[OF connectWebview_ports(2) connectWebview_ports(1)]
    connectGesture_connectWebview[OF connectWebview_ports(2) connectWebview_ports(3)]
  by (simp add: connectWebview_ports)

text \<open>
  The claim fails for \<^verbatim>\<open>addConnection\<close>: the node \<^verbatim>\<open>node-7-a\<close> of the example canvas has one
  input and one output port, and connecting it to itself adds a connection.
\<close>

theorem addConnection_self_loop_counterexample:
  "nodes oneNodeCanvas = [0] \<and>
   node_id (objs oneNodeCanvas 0) = ''node-7-a'' \<and>
   comp_inputs (componentOf oneNodeCanvas 0) = Some [''in''] \<and>
   comp_outputs (componentOf oneNodeCanvas 0) = Some [''out''] \<and>
   connections oneNodeCanvas = [] \<and>
   connections (snd (addConnection ''node-7-a'' ''out'' ''node-7-a'' ''in'' 8 ''b'' oneNodeCanvas)) =
     [\<lparr>conn_id = connIdOf 8 ''b'', fromNode = ''node-7-a'', fromPort = ''out'',
       toNode = ''node-7-a'', toPort = ''in''\<rparr>] \<and>
   length (connections
     (snd (addConnection ''node-7-a'' ''out'' ''node-7-a'' ''in'' 8 ''b'' oneNodeCanvas))) =
     Suc (length (connections oneNodeCanvas))"
  by (simp add: oneNodeCanvas_def componentOf_def cpu_def)

section \<open>Rendering never raises on nodes that carry their port lists\<close>

lemma indexOf_ge: "indexOf ps v \<ge> -1"
  by (induction ps) (auto simp: Let_def)

lemma indexOf_absent: "indexOf ps v = -1 \<longleftrightarrow> v \<notin> set ps"
proof (induction ps)
  case Nil
  then show ?case by simp
next
  case (Cons p ps)
  have "indexOf ps v \<ge> -1" by (rule indexOf_ge)
  with Cons show ?case by (auto simp: Let_def)
qed

lemma findNodeById_Some: "findNodeById h rs i = Some r \<Longrightarrow> r \<in> set rs \<and> node_id (h r) = i"
  by (auto simp: findNodeById_def find_Some_iff)

lemma findNodeById_None: "findNodeById h rs i = None \<longleftrightarrow> (\<forall>r \<in> set rs. node_id (h r) \<noteq> i)"
  by (auto simp: findNodeById_def find_None_iff)

lemma drawEach_concat:
  "(\<And>x. x \<in> set xs \<Longrightarrow> f x = Inr (g x)) \<Longrightarrow> drawEach f xs = Inr (concat (map g xs))"
  by (induction xs) auto

lemma drawEach_ok:
  assumes "\<And>x. x \<in> set xs \<Longrightarrow> \<exists>a. f x = Inr a"
  shows "\<exists>b. drawEach f xs = Inr b"
  using assms
proof (induction xs)
  case Nil
  then show ?case by simp
next
  case (Cons x xs)
  from Cons.prems obtain a where a: "f x = Inr a" by auto
  from Cons obtain b where b: "drawEach f xs = Inr b" by auto
  from a b show ?case by simp
qed

lemma drawEach_cong:
  "(\<And>x. x \<in> set xs \<Longrightarrow> f x = g x) \<Longrightarrow> drawEach f xs = drawEach g xs"
  by (induction xs) (auto split: sum.splits)

lemma drawEach_filter:
  "(\<And>x. x \<in> set xs \<Longrightarrow> \<not> P x \<Longrightarrow> f x = Inr []) \<Longrightarrow>
   drawEach f (filter P xs) = drawEach f xs"
  by (induction xs) (auto split: sum.splits)

lemma drawEach_length:
  assumes "\<And>x. x \<in> set xs \<Longrightarrow> \<exists>a. f x = Inr a \<and> length a = (if P x then 1 else 0)"
  shows "\<exists>b. drawEach f xs = Inr b \<and> length b = length (filter P xs)"
  using assms
proof (induction xs)
  case Nil
  then show ?case by simp
next
  case (Cons x xs)
  from Cons.prems obtain a where a: "f x = Inr a" "length a = (if P x then 1 else 0)" by auto
  from Cons obtain b where b: "drawEach f xs = Inr b" "length b = length (filter P xs)" by auto
  from a b show ?case by simp
qed

subsection \<open>One connection\<close>

lemma drawConnection_resolves:
  "portsPresent (comps c) (objs c) (nodes c) \<Longrightarrow>
   \<exists>a. drawConnection c conn = Inr a \<and>
        length a = (if resolves (comps c) (objs c) (nodes c) conn then 1 else 0)"
  by (auto simp: drawConnection_def resolves_def portsPresent_def componentOf_def Let_def
      indexOf_absent dest!: findNodeById_Some split: option.splits)

lemma drawConnection_dangling:
  "portsPresent (comps c) (objs c) (nodes c) \<Longrightarrow>
   \<not> resolves (comps c) (objs c) (nodes c) conn \<Longrightarrow> drawConnection c conn = Inr []"
  using drawConnection_resolves[of c conn] by auto

lemma drawConnection_wv_resolves:
  "portsPresent (comps w) (objs w) (wv_nodes w) \<Longrightarrow>
   \<exists>a. drawConnection_wv w conn = Inr a \<and>
        length a = (if resolves (comps w) (objs w) (wv_nodes w) conn then 1 else 0)"
  by (auto simp: drawConnection_wv_def resolves_def portsPresent_def componentOf_def Let_def
      indexOf_absent dest!: findNodeById_Some split: option.splits)

lemma drawConnection_wv_dangling:
  "portsPresent (comps w) (objs w) (wv_nodes w) \<Longrightarrow>
   \<not> resolves (comps w) (objs w) (wv_nodes w) conn \<Longrightarrow> drawConnection_wv w conn = Inr []"
  using drawConnection_wv_resolves[of w conn] by auto

subsection \<open>The whole picture\<close>

lemma drawConnections_ok:
  "portsPresent (comps c) (objs c) (nodes c) \<Longrightarrow>
   \<exists>ls. drawConnections c = Inr ls \<and>
        length ls = length (filter (resolves (comps c) (objs c) (nodes c)) (connections c))"
  unfolding drawConnections_def
  by (rule drawEach_length) (rule drawConnection_resolves)

lemma drawConnections_wv_ok:
  "portsPresent (comps w) (objs w) (wv_nodes w) \<Longrightarrow>
   \<exists>ls. drawConnections_wv w = Inr ls \<and>
        length ls = length (filter (resolves (comps w) (objs w) (wv_nodes w)) (wv_connections w))"
  unfolding drawConnections_wv_def
  by (rule drawEach_length) (rule drawConnection_wv_resolves)

lemma drawNodes_ok:
  "portsPresent (comps c) (objs c) (nodes c) \<Longrightarrow> \<exists>ns. drawNodes c = Inr ns"
  unfolding drawNodes_def
  by (rule drawEach_ok) (auto simp: drawNode_def portsPresent_def componentOf_def Let_def)

lemma drawNodes_wv_ok:
  "portsPresent (comps w) (objs w) (wv_nodes w) \<Longrightarrow> \<exists>ns. drawNodes_wv w = Inr ns"
  unfolding drawNodes_wv_def
  by (rule drawEach_ok) (auto simp: drawNode_wv_def portsPresent_def componentOf_def Let_def)

lemma drawConnectingLine_ok:
  "portsPresent (comps c) (objs c) (nodes c) \<Longrightarrow> \<exists>d. drawConnectingLine c = Inr d"
  by (auto simp: drawConnectingLine_def portsPresent_def componentOf_def Let_def
      dest!: findNodeById_Some split: option.splits)

lemma drawConnectingLine_wv_ok:
  "portsPresent (comps w) (objs w) (wv_nodes w) \<Longrightarrow> \<exists>d. drawConnectingLine_wv w = Inr d"
  by (auto simp: drawConnectingLine_wv_def portsPresent_def componentOf_def Let_def
      dest!: findNodeById_Some split: option.splits)

lemma draw_ok:
  assumes "portsPresent (comps c) (objs c) (nodes c)"
  shows "\<exists>is. draw c = Inr is"
proof -
  from drawConnections_ok[OF assms] obtain ls where "drawConnections c = Inr ls" by auto
  moreover from drawNodes_ok[OF assms] obtain ns where "drawNodes c = Inr ns" by auto
  moreover from drawConnectingLine_ok[OF assms] obtain d where "drawConnectingLine c = Inr d" by auto
  ultimately show ?thesis by (simp add: draw_def)
qed

lemma draw_wv_ok:
  assumes "portsPresent (comps w) (objs w) (wv_nodes w)"
  shows "\<exists>is. draw_wv w = Inr is"
proof -
  from drawConnections_wv_ok[OF assms] obtain ls where "drawConnections_wv w = Inr ls" by auto
  moreover from drawNodes_wv_ok[OF assms] obtain ns where "drawNodes_wv w = Inr ns" by auto
  moreover from drawConnectingLine_wv_ok[OF assms] obtain d where "drawConnectingLine_wv w = Inr d" by auto
  ultimately show ?thesis by (simp add: draw_wv_def)
qed

text \<open>What \<^verbatim>\<open>draw\<close> reads of the canvas.\<close>

lemma draw_frame:
  assumes "comps c' = comps c" "objs c' = objs c" "nodes c' = nodes c"
    "connections c' = connections c" "selectedNode c' = selectedNode c"
    "isConnecting c' = isConnecting c" "connectingFrom c' = connectingFrom c"
    "mousePos c' = mousePos c"
  shows "draw c' = draw c"
proof -
  have "drawConnection c' = drawConnection c"
    using assms by (intro ext) (simp add: drawConnection_def componentOf_def Let_def cong: option.case_cong if_cong)
  then have 1: "drawConnections c' = drawConnections c"
    using assms by (simp add: drawConnections_def)
  have 2: "drawNodes c' = drawNodes c"
    using assms by (simp add: drawNodes_def componentOf_def cong: option.case_cong)
  have 3: "drawConnectingLine c' = drawConnectingLine c"
    using assms by (simp add: drawConnectingLine_def componentOf_def Let_def cong: option.case_cong if_cong)
  show ?thesis using assms 1 2 3 by (auto simp: draw_def split: sum.splits)
qed

text \<open>Dangling connections do not change the picture.\<close>

lemma draw_without_dangling:
  assumes "portsPresent (comps c) (objs c) (nodes c)"
  shows "draw (c\<lparr>connections := filter (resolves (comps c) (objs c) (nodes c)) (connections c)\<rparr>)
           = draw c"
proof -
  let ?c' = "c\<lparr>connections := filter (resolves (comps c) (objs c) (nodes c)) (connections c)\<rparr>"
  have "drawConnection ?c' = drawConnection c"
    by (intro ext) (simp add: drawConnection_def componentOf_def Let_def cong: option.case_cong if_cong)
  then have "drawConnections ?c' =
      drawEach (drawConnection c) (filter (resolves (comps c) (objs c) (nodes c)) (connections c))"
    by (simp add: drawConnections_def)
  also have "\<dots> = drawConnections c"
    unfolding drawConnections_def
    by (rule drawEach_filter) (rule drawConnection_dangling[OF assms])
  finally have 1: "drawConnections ?c' = drawConnections c" .
  have 2: "drawNodes ?c' = drawNodes c"
    by (simp add: drawNodes_def componentOf_def cong: option.case_cong)
  have 3: "drawConnectingLine ?c' = drawConnectingLine c"
    by (simp add: drawConnectingLine_def componentOf_def Let_def cong: option.case_cong if_cong)
  show ?thesis using 1 2 3 by (auto simp: draw_def split: sum.splits)
qed

lemma draw_wv_without_dangling:
  assumes "portsPresent (comps w) (objs w) (wv_nodes w)"
  shows "draw_wv (w\<lparr>wv_connections :=
            filter (resolves (comps w) (objs w) (wv_nodes w)) (wv_connections w)\<rparr>) = draw_wv w"
proof -
  let ?w' = "w\<lparr>wv_connections :=
            filter (resolves (comps w) (objs w) (wv_nodes w)) (wv_connections w)\<rparr>"
  have "drawConnection_wv ?w' = drawConnection_wv w"
    by (intro ext) (simp add: drawConnection_wv_def componentOf_def Let_def cong: option.case_cong if_cong)
  then have "drawConnections_wv ?w' =
      drawEach (drawConnection_wv w)
        (filter (resolves (comps w) (objs w) (wv_nodes w)) (wv_connections w))"
    by (simp add: drawConnections_wv_def)
  also have "\<dots> = drawConnections_wv w"
    unfolding drawConnections_wv_def
    by (rule drawEach_filter) (rule drawConnection_wv_dangling[OF assms])
  finally have 1: "drawConnections_wv ?w' = drawConnections_wv w" .
  have 2: "drawNodes_wv ?w' = drawNodes_wv w"
    by (simp add: drawNodes_wv_def componentOf_def cong: option.case_cong)
  have 3: "drawConnectingLine_wv ?w' = drawConnectingLine_wv w"
    by (simp add: drawConnectingLine_wv_def componentOf_def Let_def cong: option.case_cong if_cong)
  show ?thesis using 1 2 3 by (auto simp: draw_wv_def split: sum.splits)
qed

section \<open>Loading the objects of a document\<close>

lemma allocNodeData_eq:
  "allocNodeData d s =
     (nextObj s,
      s\<lparr>comps := (comps s)(nextComp s := nd_component d),
        nextComp := Suc (nextComp s),
        objs := (objs s)(nextObj s :=
           \<lparr>node_id = nd_id d, node_component = nextComp s, node_x = nd_x d, node_y = nd_y d\<rparr>),
        nextObj := Suc (nextObj s)\<rparr>)"
  by (simp add: allocNodeData_def allocComponent_def allocNode_def)

lemma allocNodes_spec:
  "allocNodes ds s = (rs, s') \<Longrightarrow>
     rs = [nextObj s..<nextObj s + length ds] \<and>
     nextObj s' = nextObj s + length ds \<and>
     nextComp s' = nextComp s + length ds \<and>
     (\<forall>r < nextObj s. objs s' r = objs s r) \<and>
     (\<forall>k < nextComp s. comps s' k = comps s k) \<and>
     map (nodeData s') rs = ds"
proof (induction ds arbitrary: s rs s')
  case Nil
  then show ?case by simp
next
  case (Cons d ds)
  obtain s1 where s1: "allocNodeData d s = (nextObj s, s1)"
    by (simp add: allocNodeData_eq)
  obtain rs2 s2 where a2: "allocNodes ds s1 = (rs2, s2)"
    by (cases "allocNodes ds s1")
  from Cons.prems s1 a2 have rs: "rs = nextObj s # rs2" and s': "s' = s2"
    by simp_all
  from s1 have s1_eq:
    "s1 = s\<lparr>comps := (comps s)(nextComp s := nd_component d),
        nextComp := Suc (nextComp s),
        objs := (objs s)(nextObj s :=
           \<lparr>node_id = nd_id d, node_component = nextComp s, node_x = nd_x d, node_y = nd_y d\<rparr>),
        nextObj := Suc (nextObj s)\<rparr>"
    by (simp add: allocNodeData_eq)
  have n1: "nextObj s1 = Suc (nextObj s)" and k1: "nextComp s1 = Suc (nextComp s)"
    by (simp_all add: s1_eq)
  from Cons.IH[OF a2] have ih_rs: "rs2 = [nextObj s1..<nextObj s1 + length ds]"
    and ih_n: "nextObj s2 = nextObj s1 + length ds"
    and ih_k: "nextComp s2 = nextComp s1 + length ds"
    and ih_o: "\<forall>r < nextObj s1. objs s2 r = objs s1 r"
    and ih_c: "\<forall>k < nextComp s1. comps s2 k = comps s1 k"
    and ih_m: "map (nodeData s2) rs2 = ds"
    by blast+
  have o2: "objs s2 (nextObj s) = objs s1 (nextObj s)"
    using ih_o n1 by simp
  have c2: "comps s2 (nextComp s) = comps s1 (nextComp s)"
    using ih_c k1 by simp
  have nd: "nodeData s2 (nextObj s) = d"
    by (simp add: nodeData_def componentOf_def o2 c2 s1_eq)
  have "[nextObj s..<nextObj s + length (d # ds)] =
          nextObj s # [Suc (nextObj s)..<Suc (nextObj s) + length ds]"
    using upt_conv_Cons[of "nextObj s" "nextObj s + Suc (length ds)"] by (simp del: upt_Suc)
  with ih_rs rs have 1: "rs = [nextObj s..<nextObj s + length (d # ds)]"
    unfolding n1 by (simp del: upt_Suc)
  have 2: "nextObj s' = nextObj s + length (d # ds)"
    using ih_n n1 s' by simp
  have 3: "nextComp s' = nextComp s + length (d # ds)"
    using ih_k k1 s' by simp
  have 4: "\<forall>r < nextObj s. objs s' r = objs s r"
    using ih_o n1 s' by (simp add: s1_eq)
  have 5: "\<forall>k < nextComp s. comps s' k = comps s k"
    using ih_c k1 s' by (simp add: s1_eq)
  have 6: "map (nodeData s') rs = d # ds"
    using ih_m nd rs s' by simp
  from 1 2 3 4 5 6 show ?case by blast
qed

lemma allocNodes_Canvas_fields [simp]:
  fixes c :: Canvas
  shows "connections (snd (allocNodes ds c)) = connections c"
    and "nodes (snd (allocNodes ds c)) = nodes c"
    and "selectedNode (snd (allocNodes ds c)) = selectedNode c"
    and "isConnecting (snd (allocNodes ds c)) = isConnecting c"
    and "connectingFrom (snd (allocNodes ds c)) = connectingFrom c"
    and "mousePos (snd (allocNodes ds c)) = mousePos c"
    and "emitted (snd (allocNodes ds c)) = emitted c"
  by (induction ds arbitrary: c; simp add: allocNodeData_eq split_beta)+

lemma nodeData_ports:
  "map (nodeData s) rs = ds \<Longrightarrow> \<forall>d \<in> set ds. nodeDataHasPorts d \<Longrightarrow>
   portsPresent (comps s) (objs s) rs"
  by (auto simp: portsPresent_def nodeDataHasPorts_def nodeData_def componentOf_def)

lemma loadProjectData_state:
  "snd (loadProjectData pd c) =
     (let c1 = (case pd_nodes pd of
                  None \<Rightarrow> c
                | Some ds \<Rightarrow> (snd (allocNodes ds c))\<lparr>nodes := fst (allocNodes ds c)\<rparr>)
      in case pd_connections pd of None \<Rightarrow> c1 | Some cs \<Rightarrow> c1\<lparr>connections := cs\<rparr>)"
  by (simp add: loadProjectData_def Let_def split_beta split: sum.splits option.splits)

lemma loadProjectData_loaded:
  assumes "pd_nodes pd = Some ds" "pd_connections pd = Some cs"
  shows "nodes (snd (loadProjectData pd c)) = fst (allocNodes ds c)"
    and "connections (snd (loadProjectData pd c)) = cs"
    and "map (nodeData (snd (loadProjectData pd c))) (nodes (snd (loadProjectData pd c))) = ds"
proof -
  obtain rs s' where a: "allocNodes ds c = (rs, s')" by (cases "allocNodes ds c")
  from allocNodes_spec[OF a] have m: "map (nodeData s') rs = ds" by blast
  have st: "snd (loadProjectData pd c) = s'\<lparr>nodes := rs, connections := cs\<rparr>"
    using assms a by (simp add: loadProjectData_state)
  show "nodes (snd (loadProjectData pd c)) = fst (allocNodes ds c)"
    and "connections (snd (loadProjectData pd c)) = cs"
    using st a by simp_all
  have "map (nodeData (s'\<lparr>nodes := rs, connections := cs\<rparr>)) rs = map (nodeData s') rs"
    by (simp add: nodeData_def componentOf_def)
  with m st show "map (nodeData (snd (loadProjectData pd c))) (nodes (snd (loadProjectData pd c))) = ds"
    by simp
qed

lemma loadProjectData_returns:
  assumes "pd_nodes pd = Some ds" "pd_connections pd = Some cs"
    and "\<forall>d \<in> set ds. nodeDataHasPorts d"
  shows "fst (loadProjectData pd c) = Inr ()"
proof -
  let ?c' = "snd (loadProjectData pd c)"
  have "portsPresent (comps ?c') (objs ?c') (nodes ?c')"
    using loadProjectData_loaded(3)[OF assms(1,2)] assms(3) by (rule nodeData_ports)
  then obtain "is" where d: "draw ?c' = Inr is" using draw_ok by blast
  obtain rs s' where a: "allocNodes ds c = (rs, s')" by (cases "allocNodes ds c")
  have st: "?c' = s'\<lparr>nodes := rs, connections := cs\<rparr>"
    using assms a by (simp add: loadProjectData_state)
  show ?thesis
    using assms(1,2) a d[unfolded st] by (simp add: loadProjectData_def Let_def)
qed

lemma resolves_toNode:
  "resolves k h rs conn \<Longrightarrow> toNode conn \<in> set (map (\<lambda>r. node_id (h r)) rs)"
  by (force simp: resolves_def dest!: findNodeById_Some split: option.splits)

lemma nodeData_ids: "map (nodeData s) rs = ds \<Longrightarrow> map (\<lambda>r. node_id (objs s r)) rs = map nd_id ds"
  by (auto simp: nodeData_def)


section \<open>Rendering a model with dangling connections\<close>

lemma danglingProject_fields:
  "pd_nodes danglingProject = Some
        [\<lparr>nd_id = ''node-1-a'', nd_component = cpu, nd_x = 0, nd_y = 0\<rparr>,
         \<lparr>nd_id = ''node-2-b'', nd_component = memory, nd_x = 300, nd_y = 0\<rparr>]"
  "pd_connections danglingProject = Some
        [\<lparr>conn_id = ''conn-3-c'', fromNode = ''node-1-a'', fromPort = ''out'',
          toNode = ''node-2-b'', toPort = ''in''\<rparr>,
         \<lparr>conn_id = ''conn-4-d'', fromNode = ''node-1-a'', fromPort = ''out'',
          toNode = ''node-9-z'', toPort = ''in''\<rparr>]"
  by (simp_all add: danglingProject_def)

lemma loadedCanvas_fields [simp]:
  "nodes loadedCanvas = [0, Suc 0]"
  "objs loadedCanvas 0 = \<lparr>node_id = ''node-1-a'', node_component = 0, node_x = 0, node_y = 0\<rparr>"
  "objs loadedCanvas (Suc 0) =
     \<lparr>node_id = ''node-2-b'', node_component = Suc 0, node_x = 300, node_y = 0\<rparr>"
  "comps loadedCanvas 0 = cpu"
  "comps loadedCanvas (Suc 0) = memory"
  "connections loadedCanvas =
     [\<lparr>conn_id = ''conn-3-c'', fromNode = ''node-1-a'', fromPort = ''out'',
       toNode = ''node-2-b'', toPort = ''in''\<rparr>,
      \<lparr>conn_id = ''conn-4-d'', fromNode = ''node-1-a'', fromPort = ''out'',
       toNode = ''node-9-z'', toPort = ''in''\<rparr>]"
  by (simp_all add: loadedCanvas_def loadProjectData_state danglingProject_fields
      allocNodeData_eq newCanvas_def)

lemma loadProjectData_result:
  "fst (loadProjectData pd c) =
     (case draw (snd (loadProjectData pd c)) of Inl err \<Rightarrow> Inl err | Inr _ \<Rightarrow> Inr ())"
  by (simp add: loadProjectData_def Let_def split_beta split: sum.splits option.splits)

lemma catalogLoaded_fields [simp]:
  "nodes catalogLoaded = [0, Suc 0]"
  "objs catalogLoaded 0 = \<lparr>node_id = ''node-1-a'', node_component = 0, node_x = 0, node_y = 0\<rparr>"
  "objs catalogLoaded (Suc 0) =
     \<lparr>node_id = ''node-2-b'', node_component = Suc 0, node_x = 300, node_y = 0\<rparr>"
  "comps catalogLoaded 0 = catalogCpu"
  "comps catalogLoaded (Suc 0) = catalogMemory"
  "connections catalogLoaded =
     [\<lparr>conn_id = ''conn-3-c'', fromNode = ''node-1-a'', fromPort = ''out'',
       toNode = ''node-2-b'', toPort = ''in''\<rparr>,
      \<lparr>conn_id = ''conn-4-d'', fromNode = ''node-1-a'', fromPort = ''out'',
       toNode = ''node-9-z'', toPort = ''in''\<rparr>]"
  "selectedNode catalogLoaded = None"
  "isConnecting catalogLoaded = False"
  by (simp_all add: catalogLoaded_def loadProjectData_state catalogProject_def
      allocNodeData_eq newCanvas_def)

lemma catalogDanglingLoaded_fields [simp]:
  "nodes catalogDanglingLoaded = [0, Suc 0]"
  "objs catalogDanglingLoaded 0 =
     \<lparr>node_id = ''node-1-a'', node_component = 0, node_x = 0, node_y = 0\<rparr>"
  "objs catalogDanglingLoaded (Suc 0) =
     \<lparr>node_id = ''node-2-b'', node_component = Suc 0, node_x = 300, node_y = 0\<rparr>"
  "comps catalogDanglingLoaded 0 = catalogCpu"
  "comps catalogDanglingLoaded (Suc 0) = catalogMemory"
  "connections catalogDanglingLoaded =
     [\<lparr>conn_id = ''conn-4-d'', fromNode = ''node-1-a'', fromPort = ''out'',
       toNode = ''node-9-z'', toPort = ''in''\<rparr>]"
  "selectedNode catalogDanglingLoaded = None"
  "isConnecting catalogDanglingLoaded = False"
  by (simp_all add: catalogDanglingLoaded_def loadProjectData_state catalogDanglingProject_def
      allocNodeData_eq newCanvas_def)

lemma mixedLoaded_fields [simp]:
  "nodes mixedLoaded = [0, Suc 0]"
  "objs mixedLoaded 0 = \<lparr>node_id = ''node-1-a'', node_component = 0, node_x = 0, node_y = 0\<rparr>"
  "objs mixedLoaded (Suc 0) =
     \<lparr>node_id = ''node-2-b'', node_component = Suc 0, node_x = 300, node_y = 0\<rparr>"
  "comps mixedLoaded 0 = cpu"
  "comps mixedLoaded (Suc 0) = catalogMemory"
  "connections mixedLoaded =
     [\<lparr>conn_id = ''conn-5-e'', fromNode = ''node-1-a'', fromPort = ''nope'',
       toNode = ''node-2-b'', toPort = ''in''\<rparr>]"
  by (simp_all add: mixedLoaded_def loadProjectData_state mixedProject_def
      allocNodeData_eq newCanvas_def)

lemma addConnection_raises:
  "draw (c\<lparr>connections := connections c @
            [\<lparr>conn_id = connIdOf now rnd, fromNode = f, fromPort = fp,
              toNode = t, toPort = tp\<rparr>]\<rparr>) = Inl err \<Longrightarrow>
   addConnection f fp t tp now rnd c =
     (Inl err, c\<lparr>connections := connections c @
            [\<lparr>conn_id = connIdOf now rnd, fromNode = f, fromPort = fp,
              toNode = t, toPort = tp\<rparr>]\<rparr>)"
  by (simp add: addConnection_def Let_def)

lemma catalogNodeCanvas_fields [simp]:
  "nodes catalogNodeCanvas = [0]"
  "objs catalogNodeCanvas 0 =
     \<lparr>node_id = ''node-7-a'', node_component = 0, node_x = 100, node_y = 100\<rparr>"
  "comps catalogNodeCanvas 0 = catalogCpu"
  "connections catalogNodeCanvas = []"
  "selectedNode catalogNodeCanvas = Some 0"
  by (simp_all add: catalogNodeCanvas_def catalogCanvas_def allocComponent_def newCanvas_def)

lemma drawConnection_missing_node:
  "findNodeById (objs c) (nodes c) (fromNode conn) = None \<or>
   findNodeById (objs c) (nodes c) (toNode conn) = None \<Longrightarrow> drawConnection c conn = Inr []"
  by (auto simp: drawConnection_def split: option.splits)

lemma drawConnection_wv_missing_node:
  "findNodeById (objs w) (wv_nodes w) (fromNode conn) = None \<or>
   findNodeById (objs w) (wv_nodes w) (toNode conn) = None \<Longrightarrow> drawConnection_wv w conn = Inr []"
  by (auto simp: drawConnection_wv_def split: option.splits)

text \<open>
  C8 does not hold of the code when a resolved node has no port list, as every component
  of the browser extension's own catalog. Take a saved project with two such nodes, a
  connection between them and a connection whose \<^verbatim>\<open>toNode\<close> is absent from the node list.
  Loading it raises a TypeError from \<^verbatim>\<open>draw\<close>: the connection to the absent node is
  skipped, but the connection between the two nodes, whose \<^verbatim>\<open>fromPort\<close> is in no output
  port list, raises in \<^verbatim>\<open>drawConnections\<close> where \<^verbatim>\<open>outputs.indexOf\<close> is read. With the
  connection to the absent node as the only one, \<^verbatim>\<open>drawConnections\<close> draws nothing and
  \<^verbatim>\<open>draw\<close> still raises, in \<^verbatim>\<open>drawNode\<close> where \<^verbatim>\<open>inputs.length\<close> is read. When the first
  node has its port lists and the connection's \<^verbatim>\<open>fromPort\<close> is absent from its output port
  list, the connection raises at the second node's missing input port list instead of
  being skipped. The same project with nodes that carry their port lists loads without
  error and only the resolving connection is drawn. The canvas reaches such a state by
  itself: after a click on the catalog's \<^verbatim>\<open>CPU\<close>, \<^verbatim>\<open>addConnection\<close> to an absent node appends
  the connection, which \<^verbatim>\<open>drawConnections\<close> skips, and raises from \<^verbatim>\<open>drawNode\<close>.
\<close>

theorem draw_raises_without_port_lists:
  "comp_inputs catalogCpu = None \<and> comp_outputs catalogCpu = None \<and>
   map (\<lambda>r. node_id (objs catalogLoaded r)) (nodes catalogLoaded) = [''node-1-a'', ''node-2-b''] \<and>
   map (componentOf catalogLoaded) (nodes catalogLoaded) = [catalogCpu, catalogMemory] \<and>
   connections catalogLoaded =
     [\<lparr>conn_id = ''conn-3-c'', fromNode = ''node-1-a'', fromPort = ''out'',
       toNode = ''node-2-b'', toPort = ''in''\<rparr>,
      \<lparr>conn_id = ''conn-4-d'', fromNode = ''node-1-a'', fromPort = ''out'',
       toNode = ''node-9-z'', toPort = ''in''\<rparr>] \<and>
   fst (loadProjectData catalogProject newCanvas) = Inl TypeError \<and>
   draw catalogLoaded = Inl TypeError \<and>
   drawConnection catalogLoaded
     \<lparr>conn_id = ''conn-4-d'', fromNode = ''node-1-a'', fromPort = ''out'',
      toNode = ''node-9-z'', toPort = ''in''\<rparr> = Inr [] \<and>
   drawConnection catalogLoaded
     \<lparr>conn_id = ''conn-3-c'', fromNode = ''node-1-a'', fromPort = ''out'',
      toNode = ''node-2-b'', toPort = ''in''\<rparr> = Inl TypeError \<and>
   drawConnections catalogLoaded = Inl TypeError \<and>
   fst (loadProjectData catalogDanglingProject newCanvas) = Inl TypeError \<and>
   drawConnections catalogDanglingLoaded = Inr [] \<and>
   drawNodes catalogDanglingLoaded = Inl TypeError \<and>
   draw catalogDanglingLoaded = Inl TypeError \<and>
   comp_outputs (componentOf mixedLoaded 0) = Some [''out''] \<and>
   comp_inputs (componentOf mixedLoaded (Suc 0)) = None \<and>
   drawConnection mixedLoaded
     \<lparr>conn_id = ''conn-5-e'', fromNode = ''node-1-a'', fromPort = ''nope'',
      toNode = ''node-2-b'', toPort = ''in''\<rparr> = Inl TypeError \<and>
   fst (loadProjectData mixedProject newCanvas) = Inl TypeError \<and>
   fst (loadProjectData danglingProject newCanvas) = Inr () \<and>
   drawConnections loadedCanvas = Inr [StrokeLine 100 10 300 10] \<and>
   drawConnections (catalogNodeCanvas\<lparr>connections :=
       [\<lparr>conn_id = ''conn-8-b'', fromNode = ''node-7-a'', fromPort = ''out'',
         toNode = ''node-missing'', toPort = ''in''\<rparr>]\<rparr>) = Inr [] \<and>
   addConnection ''node-7-a'' ''out'' ''node-missing'' ''in'' 8 ''b'' catalogNodeCanvas =
     (Inl TypeError,
      catalogNodeCanvas\<lparr>connections :=
       [\<lparr>conn_id = ''conn-8-b'', fromNode = ''node-7-a'', fromPort = ''out'',
         toNode = ''node-missing'', toPort = ''in''\<rparr>]\<rparr>)"
proof -
  have k: "connIdOf 8 ''b'' = ''conn-8-b''"
    by (simp add: connIdOf_def dec_digit digit_def)
  have d0: "draw (catalogNodeCanvas\<lparr>connections := connections catalogNodeCanvas @
            [\<lparr>conn_id = connIdOf 8 ''b'', fromNode = ''node-7-a'', fromPort = ''out'',
              toNode = ''node-missing'', toPort = ''in''\<rparr>]\<rparr>) = Inl TypeError"
    by (simp add: draw_def drawConnections_def drawConnection_def drawNodes_def drawNode_def
        findNodeById_def componentOf_def catalogCpu_def)
  have c0: "drawConnections (catalogNodeCanvas\<lparr>connections :=
       [\<lparr>conn_id = ''conn-8-b'', fromNode = ''node-7-a'', fromPort = ''out'',
         toNode = ''node-missing'', toPort = ''in''\<rparr>]\<rparr>) = Inr []"
    by (simp add: drawConnections_def drawConnection_def findNodeById_def)
  have a0: "addConnection ''node-7-a'' ''out'' ''node-missing'' ''in'' 8 ''b'' catalogNodeCanvas =
     (Inl TypeError,
      catalogNodeCanvas\<lparr>connections :=
       [\<lparr>conn_id = ''conn-8-b'', fromNode = ''node-7-a'', fromPort = ''out'',
         toNode = ''node-missing'', toPort = ''in''\<rparr>]\<rparr>)"
    using addConnection_raises[OF d0] by (simp add: k)
  have d1: "draw catalogLoaded = Inl TypeError"
    by (simp add: draw_def drawConnections_def drawConnection_def findNodeById_def
        componentOf_def catalogCpu_def catalogMemory_def)
  have d2: "draw catalogDanglingLoaded = Inl TypeError"
    by (simp add: draw_def drawConnections_def drawConnection_def drawNodes_def drawNode_def
        findNodeById_def componentOf_def catalogCpu_def catalogMemory_def)
  have d3: "draw mixedLoaded = Inl TypeError"
    by (simp add: draw_def drawConnections_def drawConnection_def findNodeById_def
        componentOf_def cpu_def catalogMemory_def)
  have l1: "fst (loadProjectData catalogProject newCanvas) = Inl TypeError"
    using d1 by (simp add: loadProjectData_result catalogLoaded_def)
  have l2: "fst (loadProjectData catalogDanglingProject newCanvas) = Inl TypeError"
    using d2 by (simp add: loadProjectData_result catalogDanglingLoaded_def)
  have l3: "fst (loadProjectData mixedProject newCanvas) = Inl TypeError"
    using d3 by (simp add: loadProjectData_result mixedLoaded_def)
  have l4: "fst (loadProjectData danglingProject newCanvas) = Inr ()"
    by (rule loadProjectData_returns[OF danglingProject_fields])
      (simp add: nodeDataHasPorts_def cpu_def memory_def)
  have rest: "comp_inputs catalogCpu = None \<and> comp_outputs catalogCpu = None \<and>
   map (\<lambda>r. node_id (objs catalogLoaded r)) (nodes catalogLoaded) = [''node-1-a'', ''node-2-b''] \<and>
   map (componentOf catalogLoaded) (nodes catalogLoaded) = [catalogCpu, catalogMemory] \<and>
   connections catalogLoaded =
     [\<lparr>conn_id = ''conn-3-c'', fromNode = ''node-1-a'', fromPort = ''out'',
       toNode = ''node-2-b'', toPort = ''in''\<rparr>,
      \<lparr>conn_id = ''conn-4-d'', fromNode = ''node-1-a'', fromPort = ''out'',
       toNode = ''node-9-z'', toPort = ''in''\<rparr>] \<and>
   drawConnection catalogLoaded
     \<lparr>conn_id = ''conn-4-d'', fromNode = ''node-1-a'', fromPort = ''out'',
      toNode = ''node-9-z'', toPort = ''in''\<rparr> = Inr [] \<and>
   drawConnection catalogLoaded
     \<lparr>conn_id = ''conn-3-c'', fromNode = ''node-1-a'', fromPort = ''out'',
      toNode = ''node-2-b'', toPort = ''in''\<rparr> = Inl TypeError \<and>
   drawConnections catalogLoaded = Inl TypeError \<and>
   drawConnections catalogDanglingLoaded = Inr [] \<and>
   drawNodes catalogDanglingLoaded = Inl TypeError \<and>
   comp_outputs (componentOf mixedLoaded 0) = Some [''out''] \<and>
   comp_inputs (componentOf mixedLoaded (Suc 0)) = None \<and>
   drawConnection mixedLoaded
     \<lparr>conn_id = ''conn-5-e'', fromNode = ''node-1-a'', fromPort = ''nope'',
      toNode = ''node-2-b'', toPort = ''in''\<rparr> = Inl TypeError \<and>
   drawConnections loadedCanvas = Inr [StrokeLine 100 10 300 10]"
    by (simp add: drawConnections_def drawConnection_def drawNodes_def drawNode_def
        findNodeById_def componentOf_def catalogCpu_def catalogMemory_def cpu_def memory_def)
  from d1 d2 l1 l2 l3 l4 rest c0 a0 show ?thesis by simp
qed

section \<open>Identifiers are injective in the clock reading and the suffix\<close>

lemma digit_cases: "d < 10 \<Longrightarrow> d \<in> {0, 1, 2, 3, 4, 5, 6, 7, 8, 9::nat}"
  by auto

lemma digit_inj: "a < 10 \<Longrightarrow> b < 10 \<Longrightarrow> digit a = digit b \<Longrightarrow> a = b"
  using digit_cases[of a] digit_cases[of b] by (auto simp: digit_def)

lemma digit_not_dash: "d < 10 \<Longrightarrow> digit d \<noteq> CHR ''-''"
  using digit_cases[of d] by (auto simp: digit_def)

lemma dec_not_Nil: "dec n \<noteq> []"
  by (subst dec.simps) simp

lemma dec_no_dash: "CHR ''-'' \<notin> set (dec n)"
proof (induction n rule: dec.induct)
  case (1 n)
  show ?case
  proof (cases "n < 10")
    case True
    then show ?thesis using digit_not_dash[of n] by (auto simp: dec_digit)
  next
    case False
    with 1 have "CHR ''-'' \<notin> set (dec (n div 10))" by simp
    moreover have "digit (n mod 10) \<noteq> CHR ''-''" by (simp add: digit_not_dash)
    moreover have "dec n = dec (n div 10) @ [digit (n mod 10)]"
      using False by (subst dec.simps) simp
    ultimately show ?thesis by auto
  qed
qed

lemma dec_inj: "dec m = dec n \<Longrightarrow> m = n"
proof (induction m arbitrary: n rule: dec.induct)
  case (1 m)
  show ?case
  proof (cases "m < 10")
    case m: True
    show ?thesis
    proof (cases "n < 10")
      case True
      with m 1(2) show ?thesis by (simp add: dec_digit digit_inj)
    next
      case False
      then have "dec n = dec (n div 10) @ [digit (n mod 10)]" by (subst dec.simps) simp
      with m 1(2) dec_not_Nil[of "n div 10"] show ?thesis by (simp add: dec_digit)
    qed
  next
    case m: False
    then have dm: "dec m = dec (m div 10) @ [digit (m mod 10)]" by (subst dec.simps) simp
    show ?thesis
    proof (cases "n < 10")
      case True
      with dm 1(2) dec_not_Nil[of "m div 10"] show ?thesis by (simp add: dec_digit)
    next
      case False
      then have dn: "dec n = dec (n div 10) @ [digit (n mod 10)]" by (subst dec.simps) simp
      from dm dn 1(2) have e: "dec (m div 10) = dec (n div 10)"
        and d: "digit (m mod 10) = digit (n mod 10)" by simp_all
      from 1(1)[OF m e] have "m div 10 = n div 10" .
      moreover from d have "m mod 10 = n mod 10" by (intro digit_inj) simp_all
      ultimately show ?thesis by (metis div_mult_mod_eq)
    qed
  qed
qed

lemma split_at_dash:
  assumes "xs @ CHR ''-'' # ys = xs' @ CHR ''-'' # ys'"
    and "CHR ''-'' \<notin> set xs" "CHR ''-'' \<notin> set xs'"
  shows "xs = xs' \<and> ys = ys'"
proof -
  have "takeWhile (\<lambda>c. c \<noteq> CHR ''-'') (xs @ CHR ''-'' # ys) = xs"
    using assms(2) by (subst takeWhile_append2) auto
  moreover have "takeWhile (\<lambda>c. c \<noteq> CHR ''-'') (xs' @ CHR ''-'' # ys') = xs'"
    using assms(3) by (subst takeWhile_append2) auto
  ultimately have "xs = xs'" using assms(1) by simp
  with assms(1) show ?thesis by simp
qed

lemma nodeIdOf_inj: "nodeIdOf now rnd = nodeIdOf now' rnd' \<longleftrightarrow> now = now' \<and> rnd = rnd'"
proof
  assume "nodeIdOf now rnd = nodeIdOf now' rnd'"
  then have "dec now @ CHR ''-'' # rnd = dec now' @ CHR ''-'' # rnd'"
    by (simp add: nodeIdOf_def)
  from split_at_dash[OF this dec_no_dash dec_no_dash] dec_inj
  show "now = now' \<and> rnd = rnd'" by blast
qed simp


section \<open>Adding a node\<close>

lemma addNode_returns:
  assumes pp: "portsPresent (comps c) (objs c) (nodes c)"
    and t: "comp_inputs (comps c T) \<noteq> None" "comp_outputs (comps c T) \<noteq> None"
    and al: "allocated (nextObj c) (nodes c)"
  shows "addNode T x y now rnd c =
           (Inr (nextObj c),
            c\<lparr>objs := (objs c)(nextObj c :=
                  \<lparr>node_id = nodeIdOf now rnd, node_component = T, node_x = x, node_y = y\<rparr>),
              nextObj := Suc (nextObj c),
              nodes := nodes c @ [nextObj c],
              selectedNode := Some (nextObj c),
              emitted := emitted c @ [NodeAdded (nextObj c)]\<rparr>)"
proof -
  let ?n = "\<lparr>node_id = nodeIdOf now rnd, node_component = T, node_x = x, node_y = y\<rparr>"
  let ?c2 = "c\<lparr>objs := (objs c)(nextObj c := ?n), nextObj := Suc (nextObj c),
               nodes := nodes c @ [nextObj c], selectedNode := Some (nextObj c)\<rparr>"
  have "portsPresent (comps ?c2) (objs ?c2) (nodes ?c2)"
    using pp t al by (auto simp: portsPresent_def allocated_def)
  then obtain "is" where "draw ?c2 = Inr is" using draw_ok by blast
  then show ?thesis
    by (simp add: addNode_def allocNode_def Let_def)
qed

text \<open>
  C9, as the code has it. For a template that carries both port lists, on a canvas whose
  nodes carry theirs, \<^verbatim>\<open>addNode(T, x, y)\<close> returns the new node: it is appended at the end
  of the node list, refers to the template object \<open>T\<close> (so its port lists are \<open>T\<close>'s), lies
  at (x, y), is selected and announced, and no earlier node changes. The webview's
  add-component click does the same with the selected component at the cursor position
  minus (50, 25). The new id is \<^verbatim>\<open>node-<clock>-<suffix>\<close>; two such ids are equal only if
  both the clock readings and the suffixes are equal, and the id is not compared with the
  ids already in use.
\<close>

theorem addNode_appends_template_instance:
  "(portsPresent (comps c) (objs c) (nodes c) \<and>
    comp_inputs (comps c T) \<noteq> None \<and> comp_outputs (comps c T) \<noteq> None \<and>
    allocated (nextObj c) (nodes c) \<longrightarrow>
      fst (addNode T x y now rnd c) = Inr (nextObj c) \<and>
      nodes (snd (addNode T x y now rnd c)) = nodes c @ [nextObj c] \<and>
      nextObj c \<notin> set (nodes c) \<and>
      objs (snd (addNode T x y now rnd c)) (nextObj c) =
        \<lparr>node_id = nodeIdOf now rnd, node_component = T, node_x = x, node_y = y\<rparr> \<and>
      componentOf (snd (addNode T x y now rnd c)) (nextObj c) = comps c T \<and>
      comp_inputs (componentOf (snd (addNode T x y now rnd c)) (nextObj c)) =
        comp_inputs (comps c T) \<and>
      comp_outputs (componentOf (snd (addNode T x y now rnd c)) (nextObj c)) =
        comp_outputs (comps c T) \<and>
      (\<forall>r \<in> set (nodes c). objs (snd (addNode T x y now rnd c)) r = objs c r) \<and>
      selectedNode (snd (addNode T x y now rnd c)) = Some (nextObj c) \<and>
      emitted (snd (addNode T x y now rnd c)) = emitted c @ [NodeAdded (nextObj c)]) \<and>
   (wv_selectedComponent w = Some T \<and> allocated (nextObj w) (wv_nodes w) \<longrightarrow>
      wv_nodes (handleAddComponentTool now rnd w) = wv_nodes w @ [nextObj w] \<and>
      nextObj w \<notin> set (wv_nodes w) \<and>
      objs (handleAddComponentTool now rnd w) (nextObj w) =
        \<lparr>node_id = nodeIdOf now rnd, node_component = T,
         node_x = fst (wv_mousePos w) - 50, node_y = snd (wv_mousePos w) - 25\<rparr> \<and>
      componentOf (handleAddComponentTool now rnd w) (nextObj w) = comps w T \<and>
      (\<forall>r \<in> set (wv_nodes w). objs (handleAddComponentTool now rnd w) r = objs w r)) \<and>
   (nodeIdOf now rnd = nodeIdOf now' rnd' \<longleftrightarrow> now = now' \<and> rnd = rnd')"
proof (intro conjI impI)
  assume a: "portsPresent (comps c) (objs c) (nodes c) \<and>
    comp_inputs (comps c T) \<noteq> None \<and> comp_outputs (comps c T) \<noteq> None \<and>
    allocated (nextObj c) (nodes c)"
  then have r: "addNode T x y now rnd c =
           (Inr (nextObj c),
            c\<lparr>objs := (objs c)(nextObj c :=
                  \<lparr>node_id = nodeIdOf now rnd, node_component = T, node_x = x, node_y = y\<rparr>),
              nextObj := Suc (nextObj c),
              nodes := nodes c @ [nextObj c],
              selectedNode := Some (nextObj c),
              emitted := emitted c @ [NodeAdded (nextObj c)]\<rparr>)"
    by (intro addNode_returns) auto
  from a have fresh: "nextObj c \<notin> set (nodes c)" by (auto simp: allocated_def)
  show "fst (addNode T x y now rnd c) = Inr (nextObj c)"
    and "nodes (snd (addNode T x y now rnd c)) = nodes c @ [nextObj c]"
    and "objs (snd (addNode T x y now rnd c)) (nextObj c) =
        \<lparr>node_id = nodeIdOf now rnd, node_component = T, node_x = x, node_y = y\<rparr>"
    and "componentOf (snd (addNode T x y now rnd c)) (nextObj c) = comps c T"
    and "comp_inputs (componentOf (snd (addNode T x y now rnd c)) (nextObj c)) =
        comp_inputs (comps c T)"
    and "comp_outputs (componentOf (snd (addNode T x y now rnd c)) (nextObj c)) =
        comp_outputs (comps c T)"
    and "selectedNode (snd (addNode T x y now rnd c)) = Some (nextObj c)"
    and "emitted (snd (addNode T x y now rnd c)) = emitted c @ [NodeAdded (nextObj c)]"
    by (simp_all add: r componentOf_def)
  show "nextObj c \<notin> set (nodes c)" by (rule fresh)
  show "\<forall>r \<in> set (nodes c). objs (snd (addNode T x y now rnd c)) r = objs c r"
    using fresh by (auto simp: r)
next
  assume a: "wv_selectedComponent w = Some T \<and> allocated (nextObj w) (wv_nodes w)"
  then have fresh: "nextObj w \<notin> set (wv_nodes w)" by (auto simp: allocated_def)
  from a show "wv_nodes (handleAddComponentTool now rnd w) = wv_nodes w @ [nextObj w]"
    and "objs (handleAddComponentTool now rnd w) (nextObj w) =
        \<lparr>node_id = nodeIdOf now rnd, node_component = T,
         node_x = fst (wv_mousePos w) - 50, node_y = snd (wv_mousePos w) - 25\<rparr>"
    and "componentOf (handleAddComponentTool now rnd w) (nextObj w) = comps w T"
    by (simp_all add: handleAddComponentTool_def allocNode_def componentOf_def)
  show "nextObj w \<notin> set (wv_nodes w)" by (rule fresh)
  from a fresh show "\<forall>r \<in> set (wv_nodes w). objs (handleAddComponentTool now rnd w) r = objs w r"
    by (auto simp: handleAddComponentTool_def allocNode_def)
next
  show "nodeIdOf now rnd = nodeIdOf now' rnd' \<longleftrightarrow> now = now' \<and> rnd = rnd'"
    by (rule nodeIdOf_inj)
qed

lemma cpuCanvas_more_fields [simp]:
  "connectingFrom cpuCanvas = None" "objs cpuCanvas = (\<lambda>_. emptyNode)"
  by (simp_all add: cpuCanvas_def allocComponent_def newCanvas_def)

lemma oneNodeCanvas_fields [simp]:
  "nodes oneNodeCanvas = [0]" "nextObj oneNodeCanvas = Suc 0"
  "objs oneNodeCanvas 0 =
     \<lparr>node_id = ''node-7-a'', node_component = 0, node_x = 100, node_y = 100\<rparr>"
  "comps oneNodeCanvas 0 = cpu" "connections oneNodeCanvas = []"
  by (simp_all add: oneNodeCanvas_def)

theorem addNode_appends_template_instance_witness:
  "fst (addNode 0 100 100 7 ''a'' cpuCanvas) = Inr 0 \<and>
   nodes (snd (addNode 0 100 100 7 ''a'' cpuCanvas)) = [0] \<and>
   fst (addNode 0 300 100 8 ''b'' oneNodeCanvas) = Inr (Suc 0) \<and>
   nodes (snd (addNode 0 300 100 8 ''b'' oneNodeCanvas)) = [0, Suc 0] \<and>
   comp_inputs (componentOf (snd (addNode 0 300 100 8 ''b'' oneNodeCanvas)) (Suc 0)) = Some [''in''] \<and>
   comp_outputs (componentOf (snd (addNode 0 300 100 8 ''b'' oneNodeCanvas)) (Suc 0)) = Some [''out''] \<and>
   node_id (objs (snd (addNode 0 300 100 8 ''b'' oneNodeCanvas)) 0) = ''node-7-a'' \<and>
   node_id (objs (snd (addNode 0 300 100 8 ''b'' oneNodeCanvas)) (Suc 0)) = ''node-8-b'' \<and>
   wv_nodes (handleAddComponentTool 8 ''b'' oneNodeWebview) = [0, Suc 0]"
  using addNode_appends_template_instance[of cpuCanvas 0 100 100 7 "''a''"
      "onComponentSelected cpu newWebviewCanvas" 8 "''b''"]
    addNode_appends_template_instance[of oneNodeCanvas 0 300 100 8 "''b''" oneNodeWebview 7 "''a''"]
  by (simp add: portsPresent_def allocated_def cpu_def componentOf_def
      handleAddComponentTool_def allocNode_def oneNodeWebview_def onComponentSelected_def
      allocComponent_def newWebviewCanvas_def)

lemma nodeIdOf_tick: "nodeIdOf 1700000000000 ''i'' = ''node-1700000000000-i''"
  by (simp add: nodeIdOf_def dec.simps digit_def)

lemma sameTickCanvas_fields [simp]:
  "nodes sameTickCanvas = [0]" "nextObj sameTickCanvas = Suc 0"
  "objs sameTickCanvas 0 =
     \<lparr>node_id = ''node-1700000000000-i'', node_component = 0, node_x = 100, node_y = 100\<rparr>"
  "comps sameTickCanvas 0 = cpu" "emitted sameTickCanvas = [NodeAdded 0]"
  by (simp_all add: sameTickCanvas_def nodeIdOf_tick addNode_state Let_def draw_def
     drawConnections_def drawNodes_def drawNode_def componentOf_def cpu_def)

text \<open>
  The claim fails in two ways. Two calls in the same millisecond whose random draws are
  both 0.5 (suffix \<^verbatim>\<open>i\<close> in base 36) give two nodes the same id, and both calls return.
  And for the browser catalog's own \<^verbatim>\<open>cpu\<close> component, which has no port lists,
  \<^verbatim>\<open>addNode\<close> raises inside \<^verbatim>\<open>draw\<close>, after the node was appended and before
  \<^verbatim>\<open>nodeAdded\<close> is emitted.
\<close>

theorem addNode_id_not_unique_counterexample:
  "fst (addNode 0 100 100 1700000000000 ''i'' cpuCanvas) = Inr 0 \<and>
   fst (addNode 0 300 100 1700000000000 ''i'' sameTickCanvas) = Inr (Suc 0) \<and>
   nodes (snd (addNode 0 300 100 1700000000000 ''i'' sameTickCanvas)) = [0, Suc 0] \<and>
   node_id (objs (snd (addNode 0 300 100 1700000000000 ''i'' sameTickCanvas)) 0) =
     ''node-1700000000000-i'' \<and>
   node_id (objs (snd (addNode 0 300 100 1700000000000 ''i'' sameTickCanvas)) (Suc 0)) =
     ''node-1700000000000-i'' \<and>
   fst (addNode 0 100 100 1700000000000 ''i'' catalogCanvas) = Inl TypeError \<and>
   nodes (snd (addNode 0 100 100 1700000000000 ''i'' catalogCanvas)) = [0] \<and>
   emitted (snd (addNode 0 100 100 1700000000000 ''i'' catalogCanvas)) = []"
proof -
  have 1: "addNode 0 100 100 1700000000000 ''i'' cpuCanvas =
     (Inr (nextObj cpuCanvas),
      cpuCanvas\<lparr>objs := (objs cpuCanvas)(nextObj cpuCanvas :=
                  \<lparr>node_id = nodeIdOf 1700000000000 ''i'', node_component = 0,
                   node_x = 100, node_y = 100\<rparr>),
              nextObj := Suc (nextObj cpuCanvas),
              nodes := nodes cpuCanvas @ [nextObj cpuCanvas],
              selectedNode := Some (nextObj cpuCanvas),
              emitted := emitted cpuCanvas @ [NodeAdded (nextObj cpuCanvas)]\<rparr>)"
    by (rule addNode_returns) (simp_all add: portsPresent_def allocated_def cpu_def)
  have 2: "addNode 0 300 100 1700000000000 ''i'' sameTickCanvas =
     (Inr (nextObj sameTickCanvas),
      sameTickCanvas\<lparr>objs := (objs sameTickCanvas)(nextObj sameTickCanvas :=
                  \<lparr>node_id = nodeIdOf 1700000000000 ''i'', node_component = 0,
                   node_x = 300, node_y = 100\<rparr>),
              nextObj := Suc (nextObj sameTickCanvas),
              nodes := nodes sameTickCanvas @ [nextObj sameTickCanvas],
              selectedNode := Some (nextObj sameTickCanvas),
              emitted := emitted sameTickCanvas @ [NodeAdded (nextObj sameTickCanvas)]\<rparr>)"
    by (rule addNode_returns)
      (simp_all add: portsPresent_def allocated_def cpu_def)
  have 3: "addNode 0 100 100 1700000000000 ''i'' catalogCanvas =
     (Inl TypeError,
      catalogCanvas\<lparr>objs := (objs catalogCanvas)(0 :=
                  \<lparr>node_id = nodeIdOf 1700000000000 ''i'', node_component = 0,
                   node_x = 100, node_y = 100\<rparr>),
              nextObj := Suc 0, nodes := [0], selectedNode := Some 0\<rparr>)"
    by (simp add: addNode_def allocNode_def catalogCanvas_def allocComponent_def newCanvas_def
        draw_def drawConnections_def drawNodes_def drawNode_def componentOf_def catalogCpu_def)
  have 4: "emitted catalogCanvas = []"
    by (simp add: catalogCanvas_def allocComponent_def newCanvas_def)
  show ?thesis
    by (simp add: 1 2 3 4 nodeIdOf_tick)
qed

section \<open>Nodes share the component object they were created from\<close>

lemma updateNodeProperty_comps:
  "comps (snd (updateNodeProperty nodeId property v c)) =
     (case findNodeById (objs c) (nodes c) nodeId of
        None \<Rightarrow> comps c
      | Some r \<Rightarrow>
          (comps c)(node_component (objs c r) :=
             assignProperty property v (comps c (node_component (objs c r)))))"
  by (simp add: updateNodeProperty_def Let_def split: option.splits sum.splits)

lemma updateNodeProperty_objs [simp]:
  "objs (snd (updateNodeProperty nodeId property v c)) = objs c"
  "nodes (snd (updateNodeProperty nodeId property v c)) = nodes c"
  by (simp_all add: updateNodeProperty_def Let_def split: option.splits sum.splits)

lemma twoNodeCanvas_fields [simp]:
  "nodes twoNodeCanvas = [0, Suc 0]"
  "objs twoNodeCanvas 0 =
     \<lparr>node_id = ''node-7-a'', node_component = 0, node_x = 100, node_y = 100\<rparr>"
  "objs twoNodeCanvas (Suc 0) =
     \<lparr>node_id = ''node-8-b'', node_component = 0, node_x = 300, node_y = 100\<rparr>"
  "comps twoNodeCanvas 0 = cpu"
  by (simp_all add: twoNodeCanvas_def)

lemma twoNodeWebview_fields [simp]:
  "wv_nodes twoNodeWebview = [0, Suc 0]"
  "objs twoNodeWebview 0 =
     \<lparr>node_id = ''node-7-a'', node_component = 0, node_x = 100, node_y = 100\<rparr>"
  "objs twoNodeWebview (Suc 0) =
     \<lparr>node_id = ''node-8-b'', node_component = 0, node_x = 300, node_y = 100\<rparr>"
  "comps twoNodeWebview 0 = cpu"
  by (simp_all add: twoNodeWebview_def handleAddComponentTool_def allocNode_def
      oneNodeWebview_def onComponentSelected_def allocComponent_def newWebviewCanvas_def)

text \<open>
  C5 fails on the code. \<^verbatim>\<open>addNode\<close> and the add-component tool store the reference of
  the component object they are given (\<^verbatim>\<open>component: component\<close>), not a copy, and
  \<^verbatim>\<open>updateNodeProperty\<close> assigns to that shared object. On the two-node canvases, changing
  the name, the color or the input list through the first node changes them for the second
  node and for the template object as well.
\<close>

theorem updateNodeProperty_changes_sibling_node:
  "comps (snd (updateNodeProperty nodeId property v c)) =
     (case findNodeById (objs c) (nodes c) nodeId of
        None \<Rightarrow> comps c
      | Some r \<Rightarrow>
          (comps c)(node_component (objs c r) :=
             assignProperty property v (comps c (node_component (objs c r))))) \<and>
   node_component (objs twoNodeCanvas 0) = node_component (objs twoNodeCanvas (Suc 0)) \<and>
   comp_name (componentOf twoNodeCanvas (Suc 0)) = ''CPU'' \<and>
   comp_name (componentOf
      (snd (updateNodeProperty ''node-7-a'' ''name'' (Str ''ALU'') twoNodeCanvas)) (Suc 0)) = ''ALU'' \<and>
   comp_name (comps
      (snd (updateNodeProperty ''node-7-a'' ''name'' (Str ''ALU'') twoNodeCanvas)) 0) = ''ALU'' \<and>
   comp_color (componentOf twoNodeCanvas (Suc 0)) = ''#3498db'' \<and>
   comp_color (componentOf
      (snd (updateNodeProperty ''node-7-a'' ''color'' (Str ''#000000'') twoNodeCanvas)) (Suc 0))
      = ''#000000'' \<and>
   comp_inputs (componentOf twoNodeCanvas (Suc 0)) = Some [''in''] \<and>
   comp_inputs (componentOf
      (snd (updateNodeProperty ''node-7-a'' ''inputs'' (Arr [''a'', ''b'']) twoNodeCanvas)) (Suc 0))
      = Some [''a'', ''b''] \<and>
   node_component (objs twoNodeWebview 0) = node_component (objs twoNodeWebview (Suc 0)) \<and>
   comp_name (componentOf twoNodeWebview (Suc 0)) = ''CPU'' \<and>
   comp_name (componentOf
      (updateNodeProperty_wv ''node-7-a'' ''name'' (Str ''ALU'') twoNodeWebview) (Suc 0)) = ''ALU''"
  by (simp add: updateNodeProperty_comps componentOf_def findNodeById_def assignProperty_def
      updateNodeProperty_wv_def cpu_def)

section \<open>Project documents\<close>

lemma threeNodeCanvas_fields [simp]:
  "nodes threeNodeCanvas = [0, Suc 0, 2]"
  "objs threeNodeCanvas 0 =
     \<lparr>node_id = nodeIdOf 1 ''a'', node_component = 0, node_x = 100, node_y = 100\<rparr>"
  "objs threeNodeCanvas (Suc 0) =
     \<lparr>node_id = nodeIdOf 2 ''b'', node_component = Suc 0, node_x = 300, node_y = 100\<rparr>"
  "objs threeNodeCanvas 2 =
     \<lparr>node_id = nodeIdOf 3 ''c'', node_component = 2, node_x = 500, node_y = 100\<rparr>"
  "comps threeNodeCanvas 0 = cpu"
  "comps threeNodeCanvas (Suc 0) = memory"
  "comps threeNodeCanvas 2 = disk"
  "connections threeNodeCanvas =
     [\<lparr>conn_id = connIdOf 4 ''d'', fromNode = ''node-1-a'', fromPort = ''out'',
       toNode = ''node-2-b'', toPort = ''in''\<rparr>,
      \<lparr>conn_id = connIdOf 5 ''e'', fromNode = ''node-2-b'', fromPort = ''out'',
       toNode = ''node-3-c'', toPort = ''in''\<rparr>]"
  by (simp_all add: threeNodeCanvas_def allocComponent_def numeral_2_eq_2)

lemma nodeIdOf_small [simp]:
  "nodeIdOf (Suc 0) ''a'' = ''node-1-a''" "nodeIdOf 2 ''b'' = ''node-2-b''"
  "nodeIdOf 3 ''c'' = ''node-3-c''"
  by (simp_all add: nodeIdOf_def dec_digit digit_def)

section \<open>Importing a project document raises before the canvas is cleared\<close>

text \<open>
  C4 does not hold of the code. \<^verbatim>\<open>importProjectData\<close> returns at once for a null document,
  changing nothing. For every other document it raises a TypeError: \<^verbatim>\<open>Canvas\<close> defines
  none of \<^verbatim>\<open>clear\<close>, \<^verbatim>\<open>importNode\<close> and \<^verbatim>\<open>importConnection\<close>, and the call of
  \<^verbatim>\<open>this.canvas.clear()\<close> comes first. The project name has been set by then; the canvas is
  left as it was, so the live graph is not cleared and nothing of the document is inserted.
  Importing a document without nodes and connections into a project of three nodes and
  two connections raises and leaves the three nodes and the two connections. The canvas's
  own \<^verbatim>\<open>loadProjectData\<close> does not clear either: a document without a \<^verbatim>\<open>nodes\<close> field
  leaves the live nodes in place.
\<close>

theorem importProjectData_raises_at_clear:
  "''clear'' \<notin> set canvasMethods \<and> ''importNode'' \<notin> set canvasMethods \<and>
   ''importConnection'' \<notin> set canvasMethods \<and>
   importProjectData None ide = (Inr (), ide) \<and>
   fst (importProjectData (Some d) ide) = Inl TypeError \<and>
   canvas (snd (importProjectData (Some d) ide)) = canvas ide \<and>
   projectName (snd (importProjectData (Some d) ide)) =
     (case doc_name d of
        None \<Rightarrow> ''Untitled Project''
      | Some n \<Rightarrow> if n = [] then ''Untitled Project'' else n) \<and>
   fst (importProjectData (Some emptyDocument) threeNodeIDE) = Inl TypeError \<and>
   nodes (canvas (snd (importProjectData (Some emptyDocument) threeNodeIDE))) = [0, Suc 0, 2] \<and>
   length (connections (canvas (snd (importProjectData (Some emptyDocument) threeNodeIDE)))) = 2 \<and>
   projectName (snd (importProjectData (Some emptyDocument) threeNodeIDE)) = ''Empty'' \<and>
   nodes (snd (loadProjectData \<lparr>pd_nodes = None, pd_connections = Some []\<rparr> threeNodeCanvas)) =
     [0, Suc 0, 2] \<and>
   connections (snd (loadProjectData \<lparr>pd_nodes = None, pd_connections = Some []\<rparr> threeNodeCanvas)) =
     []"
  by (simp add: importProjectData_def canvasMethods_def Let_def emptyDocument_def
      threeNodeIDE_def loadProjectData_state)

section \<open>Exporting a project raises\<close>

text \<open>
  C1 does not hold of the code. \<^verbatim>\<open>exportProjectData\<close> raises a TypeError for every
  project, the graph of three nodes and two connections included, because \<^verbatim>\<open>Canvas\<close>
  defines neither \<^verbatim>\<open>exportNodes\<close> nor \<^verbatim>\<open>exportConnections\<close>: no document is produced.
  Importing a document that records that graph into a new project raises as well and the
  new project's canvas stays empty.
\<close>

theorem exportProjectData_raises:
  "''exportNodes'' \<notin> set canvasMethods \<and> ''exportConnections'' \<notin> set canvasMethods \<and>
   map (\<lambda>r. node_id (objs (canvas threeNodeIDE) r)) (nodes (canvas threeNodeIDE)) =
     [''node-1-a'', ''node-2-b'', ''node-3-c''] \<and>
   length (connections (canvas threeNodeIDE)) = 2 \<and>
   exportProjectData threeNodeIDE = Inl TypeError \<and>
   exportProjectData ide = Inl TypeError \<and>
   fst (importProjectData (Some threeNodeDocument) freshIDE) = Inl TypeError \<and>
   nodes (canvas (snd (importProjectData (Some threeNodeDocument) freshIDE))) = [] \<and>
   connections (canvas (snd (importProjectData (Some threeNodeDocument) freshIDE))) = []"
  by (simp add: exportProjectData_def importProjectData_def canvasMethods_def Let_def
      threeNodeIDE_def freshIDE_def newCanvas_def)

end
